theory Spec2Isabelle
  imports Complex_Main "HOL-Library.Stream"
begin

unbundle bit_operations_syntax

section \<open>JavaScript values used by the policy generators\<close>

text \<open>
  The file \<^verbatim>\<open>src/pages/provider/policies/DatasetPolicyEdit.tsx\<close> builds two object
  literals, mutates them and prints them with \<^verbatim>\<open>JSON.stringify(basePolicy, null, 2)\<close>.
  The values that occur are strings, numbers, arrays and objects. An object is an
  association list, because the order of its properties (the order of insertion) is the
  order in which they are printed.

  A JavaScript number is modelled as an \<^typ>\<open>int\<close>: the only number of the model is
  \<^verbatim>\<open>maxUsageCount\<close>, which the form produces with \<^verbatim>\<open>parseInt\<close>, so that it is a
  double with an integer value. Fractions, NaN and the infinities (magnitudes from
  \<open>2\<^sup>1\<^sup>0\<^sup>2\<^sup>4\<close> on) are outside the model. A number is printed as the runtime prints a
  double: with the fewest digits that identify it, and in exponent notation from
  \<open>10\<^sup>2\<^sup>1\<close> on.
  A string is a \<^typ>\<open>string\<close>; a character above 127 stands for itself.
\<close>

datatype json =
    JString string
  | JNumber int
  | JArray "json list"
  | JObject "(string \<times> json) list"

text \<open>\<^verbatim>\<open>o[k] = v\<close>: an existing property keeps its place, a new one goes last.\<close>

fun assign :: "string \<Rightarrow> json \<Rightarrow> (string \<times> json) list \<Rightarrow> (string \<times> json) list" where
  "assign k v [] = [(k, v)]"
| "assign k v (p # ps) = (if fst p = k then (k, v) # ps else p # assign k v ps)"

text \<open>\<^verbatim>\<open>o[k]\<close>, with \<open>None\<close> for \<^verbatim>\<open>undefined\<close>.\<close>

fun property :: "string \<Rightarrow> json \<Rightarrow> json option" where
  "property k (JObject ps) = map_of ps k"
| "property k _ = None"

text \<open>\<^verbatim>\<open>a[i]\<close>, with \<open>None\<close> for \<^verbatim>\<open>undefined\<close>.\<close>

fun element :: "nat \<Rightarrow> json \<Rightarrow> json option" where
  "element i (JArray xs) = (if i < length xs then Some (xs ! i) else None)"
| "element i _ = None"

subsection \<open>Number to string\<close>

definition digit_char :: "nat \<Rightarrow> char" where
  "digit_char d = ''0123456789abcdefghijklmnopqrstuvwxyz'' ! d"

function nat_toString :: "nat \<Rightarrow> nat \<Rightarrow> string" where
  "nat_toString radix n =
     (if radix < 2 \<or> n < radix then [digit_char n]
      else nat_toString radix (n div radix) @ [digit_char (n mod radix)])"
  by pat_completeness auto
termination
  by (relation "measure (\<lambda>(radix, n). n)") auto

declare nat_toString.simps [simp del]

function bit_length :: "nat \<Rightarrow> nat" where
  "bit_length n = (if n = 0 then 0 else Suc (bit_length (n div 2)))"
  by pat_completeness auto
termination
  by (relation "measure (\<lambda>n. n)") auto

declare bit_length.simps [simp del]

text \<open>
  The double nearest to a natural number, ties to the even significand: a number below
  \<open>2\<^sup>5\<^sup>3\<close> is a double; a longer one keeps its 53 leading bits, rounded. A Number of
  the program is a fixed point of this function.
\<close>

definition round_to_double :: "nat \<Rightarrow> nat" where
  "round_to_double y =
     (if y < 2 ^ 53 then y
      else (let sh = bit_length y - 53; q = y div 2 ^ sh; r = y mod 2 ^ sh; half = 2 ^ (sh - 1)
            in (if half < r \<or> (r = half \<and> odd q) then q + 1 else q) * 2 ^ sh))"

text \<open>
  Number::toString of ECMAScript, in radix 10, chooses integers \<open>n\<close>, \<open>k\<close> and \<open>s\<close> with
  \<open>10\<^sup>k\<^sup>-\<^sup>1 \<le> s < 10\<^sup>k\<close> such that \<open>s \<times> 10\<^sup>n\<^sup>-\<^sup>k\<close> rounds to the number, with \<open>k\<close> as
  small as possible and then \<open>s \<times> 10\<^sup>n\<^sup>-\<^sup>k\<close> as close to the number as possible.
  \<open>candidate y k n\<close> is that \<open>s\<close> for given \<open>k\<close> and \<open>n\<close>, if there is one: it is
  one of the two multiples of \<open>10\<^sup>n\<^sup>-\<^sup>k\<close> next to \<open>y\<close>.
\<close>

definition candidate :: "nat \<Rightarrow> nat \<Rightarrow> nat \<Rightarrow> nat option" where
  "candidate y k n =
     (let j = n - k; lo = y div 10 ^ j; hi = lo + 1;
          ok = (\<lambda>s. 10 ^ (k - 1) \<le> s \<and> s < 10 ^ k \<and> round_to_double (s * 10 ^ j) = y)
      in if ok lo \<and> ok hi
         then Some (if y - lo * 10 ^ j < hi * 10 ^ j - y then lo
                    else if hi * 10 ^ j - y < y - lo * 10 ^ j then hi
                    else if even lo then lo else hi)
         else if ok lo then Some lo
         else if ok hi then Some hi
         else None)"

text \<open>
  The search for the smallest \<open>k\<close>, over the list \<open>ks\<close> of the lengths below the number
  \<open>D\<close> of digits of \<open>y\<close>; \<open>n\<close> is \<open>D\<close>, or \<open>D + 1\<close> when \<open>y\<close> is just below a power
  of 10. With \<open>D\<close> digits \<open>y\<close> itself is the choice.
\<close>

fun shortest :: "nat \<Rightarrow> nat \<Rightarrow> nat list \<Rightarrow> nat \<times> nat \<times> nat" where
  "shortest y D [] = (D, D, y)"
| "shortest y D (k # ks) =
     (case candidate y k D of
        Some s \<Rightarrow> (k, D, s)
      | None \<Rightarrow>
          (case candidate y k (D + 1) of
             Some s \<Rightarrow> (k, D + 1, s)
           | None \<Rightarrow> shortest y D ks))"

text \<open>
  The string for \<open>(k, n, s)\<close>: up to \<open>n = 21\<close> the digits of \<open>s\<close> and \<open>n - k\<close> zeros,
  beyond it the first digit, a point and the other digits if there are any, and the
  exponent \<open>n - 1\<close>.
\<close>

definition render :: "nat \<times> nat \<times> nat \<Rightarrow> string" where
  "render t =
     (case t of (k, n, s) \<Rightarrow>
        if n \<le> 21 then nat_toString 10 s @ replicate (n - k) CHR ''0''
        else (if k = 1 then nat_toString 10 s
              else hd (nat_toString 10 s) # CHR ''.'' # tl (nat_toString 10 s))
             @ ''e+'' @ nat_toString 10 (n - 1))"

text \<open>
  \<^verbatim>\<open>x.toString()\<close> for a Number \<open>x\<close> that is a natural number. Of another natural number
  the double nearest to it is printed, the Number that \<^verbatim>\<open>parseInt\<close> makes of its digits.
\<close>

definition Number_toString10 :: "nat \<Rightarrow> string" where
  "Number_toString10 x =
     (if x = 0 then ''0''
      else (let y = round_to_double x; D = length (nat_toString 10 y)
            in render (shortest y D [1..<D])))"

text \<open>
  The digits of a natural number in a radix: in radix 10 as above, in another radix
  positional (the source prints only the numbers 0 to 15 in radix 16).
\<close>

definition Number_digits :: "nat \<Rightarrow> nat \<Rightarrow> string" where
  "Number_digits radix m = (if radix = 10 then Number_toString10 m else nat_toString radix m)"

text \<open>\<^verbatim>\<open>n.toString(radix)\<close> for an integer \<open>n\<close>; \<^verbatim>\<open>n.toString()\<close> is radix 10.\<close>

definition Number_toString :: "nat \<Rightarrow> int \<Rightarrow> string" where
  "Number_toString radix n =
     (if n < 0 then CHR ''-'' # Number_digits radix (nat (- n))
      else Number_digits radix (nat n))"

subsection \<open>JSON.stringify with an indentation of two spaces\<close>

definition hex4 :: "nat \<Rightarrow> string" where
  "hex4 n = [digit_char (n div 4096 mod 16), digit_char (n div 256 mod 16),
             digit_char (n div 16 mod 16), digit_char (n mod 16)]"

text \<open>QuoteJSONString: the escapes of one character.\<close>

definition escape_char :: "char \<Rightarrow> string" where
  "escape_char c =
     (if c = CHR 0x22 then [CHR 0x5C, CHR 0x22]
      else if c = CHR 0x5C then [CHR 0x5C, CHR 0x5C]
      else if c = CHR 0x08 then [CHR 0x5C, CHR ''b'']
      else if c = CHR 0x0C then [CHR 0x5C, CHR ''f'']
      else if c = CHR 0x0A then [CHR 0x5C, CHR ''n'']
      else if c = CHR 0x0D then [CHR 0x5C, CHR ''r'']
      else if c = CHR 0x09 then [CHR 0x5C, CHR ''t'']
      else if of_char c < (32 :: nat) then [CHR 0x5C, CHR ''u''] @ hex4 (of_char c)
      else [c])"

definition quote :: "string \<Rightarrow> string" where
  "quote s = [CHR 0x22] @ concat (map escape_char s) @ [CHR 0x22]"

fun join :: "string \<Rightarrow> string list \<Rightarrow> string" where
  "join sep [] = []"
| "join sep [x] = x"
| "join sep (x # y # ys) = x @ sep @ join sep (y # ys)"

text \<open>
  SerializeJSONProperty at the indentation \<open>ind\<close>, with the gap \<open>gap\<close>: an empty array
  or object is printed without a line break, the members of any other on a line each.
\<close>

fun serialize :: "string \<Rightarrow> string \<Rightarrow> json \<Rightarrow> string" where
  "serialize gap ind (JString s) = quote s"
| "serialize gap ind (JNumber n) = Number_toString 10 n"
| "serialize gap ind (JArray xs) =
     (if xs = [] then ''[]''
      else ''['' @ [CHR 0x0A] @ (ind @ gap)
        @ join ('','' @ [CHR 0x0A] @ (ind @ gap)) (map (serialize gap (ind @ gap)) xs)
        @ [CHR 0x0A] @ ind @ '']'')"
| "serialize gap ind (JObject ps) =
     (if ps = [] then ''{}''
      else ''{'' @ [CHR 0x0A] @ (ind @ gap)
        @ join ('','' @ [CHR 0x0A] @ (ind @ gap))
            (map (\<lambda>p. quote (fst p) @ '': '' @ serialize gap (ind @ gap) (snd p)) ps)
        @ [CHR 0x0A] @ ind @ ''}'')"

text \<open>\<^verbatim>\<open>JSON.stringify(value, null, 2)\<close>.\<close>

definition JSON_stringify :: "json \<Rightarrow> string" where
  "JSON_stringify v = serialize ''  '' [] v"

section \<open>The policy model\<close>

datatype PolicyType = restrict_consumer | restrict_connector | time_limit | usage_count

record Dataset =
  id' :: int
  name :: string
  description :: string
  uuid :: string

text \<open>The optional fields of \<^verbatim>\<open>PolicyConfig\<close> are \<open>None\<close> when they are \<^verbatim>\<open>undefined\<close>.\<close>

record PolicyConfig =
  type :: PolicyType
  consumers :: "string list option"
  connectors :: "string list option"
  startTime :: "string option"
  endTime :: "string option"
  maxUsageCount :: "int option"

section \<open>generateIDSPolicy\<close>

text \<open>The object literal of lines 89 to 107.\<close>

definition IDS_basePolicy :: "Dataset \<Rightarrow> json" where
  "IDS_basePolicy dataset = JObject
     [(''@context'', JObject
         [(''ids'', JString ''https://w3id.org/idsa/core/''),
          (''idsc'', JString ''https://w3id.org/idsa/code/'')]),
      (''@type'', JString ''ids:ContractAgreement''),
      (''@id'', JString (''https://w3id.org/idsa/autogen/contract/'' @ uuid dataset)),
      (''profile'', JString ''http://example.com/ids-profile''),
      (''ids:provider'', JString ''http://example.com/party/data-provider''),
      (''ids:consumer'', JString ''http://example.com/party/data-consumer''),
      (''ids:permission'', JArray
         [JObject
            [(''ids:target'', JObject
                [(''@id'', JString (''http://example.com/ids/target/'' @ uuid dataset))]),
             (''ids:action'', JArray [JObject [(''@id'', JString ''idsc:USE'')]])]])]"

text \<open>
  \<^verbatim>\<open>basePolicy[k] = v\<close> on the policy object. The source assigns to objects only, so
  the second equation is never used.
\<close>

fun set_field :: "string \<Rightarrow> json \<Rightarrow> json \<Rightarrow> json" where
  "set_field k v (JObject ps) = JObject (assign k v ps)"
| "set_field k v other = other"

text \<open>
  \<^verbatim>\<open>permission[k] = v\<close>, where \<^verbatim>\<open>permission\<close> is the reference
  \<^verbatim>\<open>basePolicy[list][0]\<close> taken before the switch: the assignment changes the first
  element of the permission list inside the policy object and nothing else. Both base
  documents have the list with its one element, so the cases without it are never used.
\<close>

fun set_permission_field :: "string \<Rightarrow> string \<Rightarrow> json \<Rightarrow> json \<Rightarrow> json" where
  "set_permission_field list k v (JObject ps) =
     (case map_of ps list of
        Some (JArray (permission # rest)) \<Rightarrow>
          JObject (assign list (JArray (set_field k v permission # rest)) ps)
      | _ \<Rightarrow> JObject ps)"
| "set_permission_field list k v other = other"

definition IDS_Constraint :: "string \<Rightarrow> string \<Rightarrow> string \<Rightarrow> string \<Rightarrow> json" where
  "IDS_Constraint leftOperand operator val datatype = JObject
     [(''@type'', JString ''ids:Constraint''),
      (''ids:leftOperand'', JObject [(''@id'', JString leftOperand)]),
      (''ids:operator'', JObject [(''@id'', JString operator)]),
      (''ids:rightOperand'', JArray
         [JObject [(''@value'', JString val), (''@type'', JString datatype)]])]"

text \<open>The policy object when the switch of lines 112 to 165 is left.\<close>

definition generateIDSPolicy_object :: "Dataset \<Rightarrow> PolicyConfig \<Rightarrow> json" where
  "generateIDSPolicy_object dataset config =
     (let basePolicy = IDS_basePolicy dataset in
      case type config of
        restrict_consumer \<Rightarrow>
          (case consumers config of
             None \<Rightarrow> basePolicy
           | Some cs \<Rightarrow>
               if length cs > 0 then set_field ''ids:consumer'' (JString (cs ! 0)) basePolicy
               else basePolicy)
      | restrict_connector \<Rightarrow>
          (case connectors config of
             None \<Rightarrow> basePolicy
           | Some cs \<Rightarrow>
               if length cs > 0
               then set_permission_field ''ids:permission'' ''ids:constraint''
                      (JArray [IDS_Constraint ''idsc:CONNECTOR'' ''idsc:EQUALS'' (cs ! 0)
                                 ''xsd:string''])
                      basePolicy
               else basePolicy)
      | time_limit \<Rightarrow>
          (case (startTime config, endTime config) of
             (Some s, Some e) \<Rightarrow>
               if s \<noteq> [] \<and> e \<noteq> []
               then set_permission_field ''ids:permission'' ''ids:constraint''
                      (JArray [IDS_Constraint ''idsc:POLICY_EVALUATION_TIME'' ''idsc:AFTER'' s
                                 ''xsd:dateTimeStamp'',
                               IDS_Constraint ''idsc:POLICY_EVALUATION_TIME'' ''idsc:BEFORE'' e
                                 ''xsd:dateTimeStamp''])
                      basePolicy
               else basePolicy
           | _ \<Rightarrow> basePolicy)
      | usage_count \<Rightarrow>
          (case maxUsageCount config of
             None \<Rightarrow> basePolicy
           | Some n \<Rightarrow>
               if n \<noteq> 0
               then set_permission_field ''ids:permission'' ''ids:constraint''
                      (JArray [IDS_Constraint ''idsc:COUNT'' ''idsc:LTEQ'' (Number_toString 10 n)
                                 ''xsd:double''])
                      basePolicy
               else basePolicy))"

definition generateIDSPolicy :: "Dataset \<Rightarrow> PolicyConfig \<Rightarrow> string" where
  "generateIDSPolicy dataset config = JSON_stringify (generateIDSPolicy_object dataset config)"

section \<open>generateODRLPolicy\<close>

text \<open>
  The object literal of lines 172 to 193. \<open>now\<close> is the value of
  \<^verbatim>\<open>new Date().toISOString()\<close> when the literal is evaluated: the clock is the one input
  of the function besides its arguments.
\<close>

definition ODRL_basePolicy :: "string \<Rightarrow> Dataset \<Rightarrow> json" where
  "ODRL_basePolicy now dataset = JObject
     [(''@context'', JArray
         [JString ''http://www.w3.org/ns/odrl.jsonld'',
          JObject
            [(''dc'', JString ''http://purl.org/dc/terms/''),
             (''ids'', JString ''https://w3id.org/idsa/core/''),
             (''idsc'', JString ''https://w3id.org/idsa/code/'')]]),
      (''@type'', JString ''Agreement''),
      (''uid'', JString (''http://example.com/policy/'' @ uuid dataset)),
      (''profile'', JString ''http://www.w3.org/ns/odrl/2/core''),
      (''dc:creator'', JString ''Data Provider''),
      (''dc:description'', JString (''Policy for dataset: '' @ name dataset)),
      (''dc:issued'', JString now),
      (''permission'', JArray
         [JObject
            [(''target'', JString (''http://example.com/ids/data/'' @ uuid dataset)),
             (''assigner'', JString ''http://example.com/ids/party/data-provider''),
             (''assignee'', JString ''http://example.com/ids/party/data-consumer''),
             (''action'', JString ''use'')]])]"

definition ODRL_Constraint :: "string \<Rightarrow> string \<Rightarrow> json \<Rightarrow> json" where
  "ODRL_Constraint leftOperand operator rightOperand = JObject
     [(''leftOperand'', JString leftOperand),
      (''operator'', JString operator),
      (''rightOperand'', rightOperand)]"

text \<open>The policy object when the switch of lines 197 to 234 is left.\<close>

definition generateODRLPolicy_object :: "string \<Rightarrow> Dataset \<Rightarrow> PolicyConfig \<Rightarrow> json" where
  "generateODRLPolicy_object now dataset config =
     (let basePolicy = ODRL_basePolicy now dataset in
      case type config of
        restrict_consumer \<Rightarrow>
          (case consumers config of
             None \<Rightarrow> basePolicy
           | Some cs \<Rightarrow>
               if length cs > 0
               then set_permission_field ''permission'' ''assignee'' (JString (cs ! 0)) basePolicy
               else basePolicy)
      | restrict_connector \<Rightarrow>
          (case connectors config of
             None \<Rightarrow> basePolicy
           | Some cs \<Rightarrow>
               if length cs > 0
               then set_permission_field ''permission'' ''constraint''
                      (JArray [ODRL_Constraint ''connector'' ''eq'' (JString (cs ! 0))])
                      basePolicy
               else basePolicy)
      | time_limit \<Rightarrow>
          (case (startTime config, endTime config) of
             (Some s, Some e) \<Rightarrow>
               if s \<noteq> [] \<and> e \<noteq> []
               then set_permission_field ''permission'' ''constraint''
                      (JArray [ODRL_Constraint ''dateTime'' ''gteq''
                                 (JObject [(''@value'', JString s),
                                           (''@type'', JString ''xsd:dateTime'')]),
                               ODRL_Constraint ''dateTime'' ''lteq''
                                 (JObject [(''@value'', JString e),
                                           (''@type'', JString ''xsd:dateTime'')])])
                      basePolicy
               else basePolicy
           | _ \<Rightarrow> basePolicy)
      | usage_count \<Rightarrow>
          (case maxUsageCount config of
             None \<Rightarrow> basePolicy
           | Some n \<Rightarrow>
               if n \<noteq> 0
               then set_permission_field ''permission'' ''constraint''
                      (JArray [ODRL_Constraint ''count'' ''lteq'' (JNumber n)])
                      basePolicy
               else basePolicy))"

definition generateODRLPolicy :: "string \<Rightarrow> Dataset \<Rightarrow> PolicyConfig \<Rightarrow> string" where
  "generateODRLPolicy now dataset config =
     JSON_stringify (generateODRLPolicy_object now dataset config)"

section \<open>generateUUID\<close>

text \<open>
  The random source is the stream of the results of the successive calls of
  \<^verbatim>\<open>Math.random()\<close>; a call reads the head and leaves the tail.
\<close>

text \<open>ToInt32 of a finite number: truncation, then reduction to the signed 32-bit range.\<close>

definition ToInt32 :: "real \<Rightarrow> int" where
  "ToInt32 x = ((if 0 \<le> x then \<lfloor>x\<rfloor> else \<lceil>x\<rceil>) + 2 ^ 31) mod 2 ^ 32 - 2 ^ 31"

text \<open>The callback of lines 70 to 74, called on the matched character \<open>c\<close>.\<close>

definition replacer :: "char \<Rightarrow> real stream \<Rightarrow> string \<times> real stream" where
  "replacer c rnd =
     (let r = ToInt32 (shd rnd * 16) OR 0;
          v = (if c = CHR ''x'' then r else (r AND 0x3) OR 0x8)
      in (Number_toString 16 v, stl rnd))"

text \<open>
  \<^verbatim>\<open>template.replace(/[xy]/g, replacer)\<close>: every \<^verbatim>\<open>x\<close> and \<^verbatim>\<open>y\<close>, from left to
  right, is replaced by the result of a call of the callback.
\<close>

fun replace_xy :: "string \<Rightarrow> real stream \<Rightarrow> string \<times> real stream" where
  "replace_xy [] rnd = ([], rnd)"
| "replace_xy (c # cs) rnd =
     (if c = CHR ''x'' \<or> c = CHR ''y''
      then (let (s, rnd') = replacer c rnd; (rest, rnd'') = replace_xy cs rnd'
            in (s @ rest, rnd''))
      else (let (rest, rnd') = replace_xy cs rnd in (c # rest, rnd')))"

definition generateUUID :: "real stream \<Rightarrow> string \<times> real stream" where
  "generateUUID rnd = replace_xy ''xxxxxxxx-xxxx-4xxx-yxxx-xxxxxxxxxxxx'' rnd"

section \<open>The effect that regenerates both documents\<close>

text \<open>
  Lines 255 to 262: when a dataset is selected, both generators run on the selected
  dataset and the current configuration and their results replace the two documents of the
  component state; otherwise the state stays as it is. \<open>now\<close> is the clock reading that
  \<^verbatim>\<open>generateODRLPolicy\<close> takes during the run.
\<close>

record PolicyDocuments =
  idsPolicy :: string
  odrlPolicy :: string

definition useEffect_policies ::
  "string \<Rightarrow> Dataset option \<Rightarrow> PolicyConfig \<Rightarrow> PolicyDocuments \<Rightarrow> PolicyDocuments" where
  "useEffect_policies now selectedDataset policyConfig state =
     (case selectedDataset of
        None \<Rightarrow> state
      | Some dataset \<Rightarrow>
          \<lparr>idsPolicy = generateIDSPolicy dataset policyConfig,
           odrlPolicy = generateODRLPolicy now dataset policyConfig\<rparr>)"

section \<open>Reading the generated documents\<close>

text \<open>\<^verbatim>\<open>Object.keys(o)\<close>.\<close>

fun names :: "json \<Rightarrow> string list" where
  "names (JObject ps) = map fst ps"
| "names _ = []"

text \<open>\<^verbatim>\<open>policy["ids:permission"][0]\<close> and \<^verbatim>\<open>policy.permission[0]\<close>.\<close>

definition IDS_permission :: "json \<Rightarrow> json option" where
  "IDS_permission policy = Option.bind (property ''ids:permission'' policy) (element 0)"

definition ODRL_permission :: "json \<Rightarrow> json option" where
  "ODRL_permission policy = Option.bind (property ''permission'' policy) (element 0)"

text \<open>The constraint list of that permission, \<open>None\<close> when there is none.\<close>

definition IDS_permission_constraint :: "json \<Rightarrow> json option" where
  "IDS_permission_constraint policy =
     Option.bind (IDS_permission policy) (property ''ids:constraint'')"

definition ODRL_permission_constraint :: "json \<Rightarrow> json option" where
  "ODRL_permission_constraint policy =
     Option.bind (ODRL_permission policy) (property ''constraint'')"

text \<open>Every property name and every string value of a document, in printing order.\<close>

fun strings_of :: "json \<Rightarrow> string list" where
  "strings_of (JString s) = [s]"
| "strings_of (JNumber n) = []"
| "strings_of (JArray xs) = concat (map strings_of xs)"
| "strings_of (JObject ps) = concat (map (\<lambda>p. fst p # strings_of (snd p)) ps)"

text \<open>The number that a string of decimal digits denotes.\<close>

definition decimal_value :: "string \<Rightarrow> nat" where
  "decimal_value s = foldl (\<lambda>a c. 10 * a + (of_char c - 48)) 0 s"

text \<open>
  What a character of a generated identifier may be, given the character \<open>t\<close> of the
  template at its place: a hexadecimal digit for \<^verbatim>\<open>x\<close>, one of \<^verbatim>\<open>8 9 a b\<close> for
  \<^verbatim>\<open>y\<close>, and \<open>t\<close> itself for a hyphen and for the \<^verbatim>\<open>4\<close>.
\<close>

definition uuid_slot :: "char \<Rightarrow> char \<Rightarrow> bool" where
  "uuid_slot t c =
     (if t = CHR ''x'' then c \<in> set ''0123456789abcdef''
      else if t = CHR ''y'' then c \<in> set ''89ab''
      else c = t)"

text \<open>
  The parameters that the branch of the active type reads are empty or absent. For
  \<^verbatim>\<open>time_limit\<close> one empty or absent bound is enough, as in the guard of the source.
\<close>

definition parameters_empty :: "PolicyConfig \<Rightarrow> bool" where
  "parameters_empty config =
     (case type config of
        restrict_consumer \<Rightarrow> consumers config = None \<or> consumers config = Some []
      | restrict_connector \<Rightarrow> connectors config = None \<or> connectors config = Some []
      | time_limit \<Rightarrow>
          startTime config = None \<or> startTime config = Some []
          \<or> endTime config = None \<or> endTime config = Some []
      | usage_count \<Rightarrow> maxUsageCount config = None)"

text \<open>Two configurations have the same type and agree on the parameters of that type.\<close>

definition same_relevant_parameters :: "PolicyConfig \<Rightarrow> PolicyConfig \<Rightarrow> bool" where
  "same_relevant_parameters c1 c2 =
     (type c1 = type c2 \<and>
      (case type c1 of
         restrict_consumer \<Rightarrow> consumers c1 = consumers c2
       | restrict_connector \<Rightarrow> connectors c1 = connectors c2
       | time_limit \<Rightarrow> startTime c1 = startTime c2 \<and> endTime c1 = endTime c2
       | usage_count \<Rightarrow> maxUsageCount c1 = maxUsageCount c2))"

text \<open>The document \<open>doc\<close> has the property \<open>k\<close> of the document \<open>base\<close>, with its value.\<close>

definition keeps :: "string \<Rightarrow> json \<Rightarrow> json \<Rightarrow> bool" where
  "keeps k base doc =
     (case property k base of None \<Rightarrow> False | Some v \<Rightarrow> property k doc = Some v)"

subsection \<open>Example inputs\<close>

definition example_dataset :: Dataset where
  "example_dataset =
     \<lparr>id' = 1, name = ''Weather'', description = ''Hourly observations'',
      uuid = ''3f2a9c1e-0b7d-4e5a-9c3b-1a2b3c4d5e6f''\<rparr>"

text \<open>The configuration the component starts with (lines 243 to 250).\<close>

definition initial_config :: PolicyConfig where
  "initial_config =
     \<lparr>type = restrict_consumer, consumers = Some [], connectors = Some [],
      startTime = Some [], endTime = Some [], maxUsageCount = Some 1\<rparr>"

section \<open>Printing numbers\<close>

lemma candidate_rounds:
  assumes "candidate y k n = Some s"
  shows "10 ^ (k - 1) \<le> s \<and> round_to_double (s * 10 ^ (n - k)) = y"
  using assms by (auto simp add: candidate_def Let_def split: if_splits)

lemma shortest_cases:
  assumes "shortest y D ks = (k, n, s)"
  shows "(k = D \<and> n = D \<and> s = y)
       \<or> (n \<le> D + 1 \<and> 10 ^ (k - 1) \<le> s \<and> round_to_double (s * 10 ^ (n - k)) = y)"
  using assms
proof (induction ks)
  case Nil
  then show ?case by simp
next
  case (Cons k' ks)
  show ?case
  proof (cases "candidate y k' D")
    case (Some s')
    with Cons.prems have "k = k'" "n = D" "s = s'" by simp_all
    with candidate_rounds [OF Some] show ?thesis by simp
  next
    case None
    note first = this
    show ?thesis
    proof (cases "candidate y k' (D + 1)")
      case (Some s')
      with first Cons.prems have "k = k'" "n = D + 1" "s = s'" by simp_all
      with candidate_rounds [OF Some] show ?thesis by simp
    next
      case None
      with first Cons.prems have "shortest y D ks = (k, n, s)" by simp
      then show ?thesis by (rule Cons.IH)
    qed
  qed
qed

lemma bit_length_lower: "0 < n \<Longrightarrow> 2 ^ (bit_length n - 1) \<le> n"
proof (induction n rule: less_induct)
  case (less n)
  show ?case
  proof (cases "n div 2 = 0")
    case True
    with less.prems show ?thesis
      by (simp add: bit_length.simps [of n] bit_length.simps [of 0])
  next
    case False
    then have pos: "0 < n div 2" by simp
    have "n div 2 < n" using less.prems by simp
    from less.IH [OF this pos] have ih: "2 ^ (bit_length (n div 2) - 1) \<le> n div 2" .
    have b: "0 < bit_length (n div 2)"
      using pos by (simp add: bit_length.simps [of "n div 2"])
    have "bit_length n = Suc (bit_length (n div 2))"
      using less.prems by (simp add: bit_length.simps [of n])
    then have "(2::nat) ^ (bit_length n - 1) = 2 * 2 ^ (bit_length (n div 2) - 1)"
      using b by (cases "bit_length (n div 2)") simp_all
    also have "\<dots> \<le> 2 * (n div 2)" using ih by simp
    also have "\<dots> \<le> n" by simp
    finally show ?thesis .
  qed
qed

lemma bit_length_upper: "n < 2 ^ bit_length n"
proof (induction n rule: less_induct)
  case (less n)
  show ?case
  proof (cases "n = 0")
    case True
    then show ?thesis by (simp add: bit_length.simps [of 0])
  next
    case False
    then have "n div 2 < n" by simp
    from less.IH [OF this] have ih: "n div 2 < 2 ^ bit_length (n div 2)" .
    have "bit_length n = Suc (bit_length (n div 2))"
      using False by (simp add: bit_length.simps [of n])
    moreover have "n < 2 * 2 ^ bit_length (n div 2)"
      using ih by simp
    ultimately show ?thesis by simp
  qed
qed

lemma round_to_double_large:
  assumes "2 ^ 53 \<le> y"
  shows "2 ^ 53 \<le> round_to_double y"
proof -
  define b where "b = bit_length y"
  define sh where "sh = b - 53"
  have pos: "0 < y" using assms by (simp add: less_le_trans [of 0 "2 ^ 53"])
  have "(2::nat) ^ 53 < 2 ^ b"
    using assms bit_length_upper [of y] unfolding b_def by (rule le_less_trans)
  then have b53: "53 < b" by (simp only: power_strict_increasing_iff rel_simps)
  then have bsh: "b - 1 = 52 + sh" unfolding sh_def by simp
  have "(2::nat) ^ 52 * 2 ^ sh = 2 ^ (b - 1)"
    unfolding bsh by (simp add: power_add)
  also have "\<dots> \<le> y"
    unfolding b_def using pos by (rule bit_length_lower)
  finally have "2 ^ 52 \<le> y div 2 ^ sh"
    by (simp add: less_eq_div_iff_mult_less_eq)
  then have q: "2 ^ 52 * 2 ^ sh \<le> (y div 2 ^ sh) * 2 ^ sh"
    by (simp only: mult_le_mono1)
  have sh1: "1 \<le> sh" unfolding sh_def using b53 by simp
  have "(2::nat) ^ 53 = 2 ^ 52 * 2 ^ 1" by simp
  also have "\<dots> \<le> 2 ^ 52 * 2 ^ sh"
    using sh1 by (simp only: mult_le_mono2 power_increasing_iff rel_simps)
  also note q
  also have "(y div 2 ^ sh) * 2 ^ sh \<le> round_to_double y"
    using assms unfolding round_to_double_def Let_def sh_def b_def
    by (simp add: not_less [symmetric])
  finally show ?thesis .
qed

lemma round_to_double_exact:
  assumes "round_to_double v = y" and "y < 2 ^ 53"
  shows "v = y"
proof (cases "v < 2 ^ 53")
  case True
  with assms(1) show ?thesis by (simp add: round_to_double_def)
next
  case False
  then have "2 ^ 53 \<le> v" by simp
  then have "2 ^ 53 \<le> round_to_double v" by (rule round_to_double_large)
  with assms show ?thesis by simp
qed

lemma nat_toString_times_ten:
  assumes "0 < v"
  shows "nat_toString 10 (v * 10) = nat_toString 10 v @ [CHR ''0'']"
  using assms by (simp add: nat_toString.simps [of 10 "v * 10"] digit_char_def)

lemma nat_toString_times_10:
  assumes "0 < s"
  shows "nat_toString 10 (s * 10 ^ j) = nat_toString 10 s @ replicate j CHR ''0''"
proof (induction j)
  case 0
  show ?case by simp
next
  case (Suc j)
  have pos: "0 < s * 10 ^ j" using assms by simp
  have "s * 10 ^ Suc j = (s * 10 ^ j) * 10" by simp
  then have "nat_toString 10 (s * 10 ^ Suc j) = nat_toString 10 (s * 10 ^ j) @ [CHR ''0'']"
    by (simp only: nat_toString_times_ten [OF pos])
  then show ?case
    by (simp add: Suc.IH replicate_append_same)
qed

lemma nat_toString_length:
  assumes "x < 10 ^ m" and "0 < m"
  shows "length (nat_toString 10 x) \<le> m"
  using assms
proof (induction m arbitrary: x)
  case 0
  then show ?case by simp
next
  case (Suc m)
  show ?case
  proof (cases "x < 10")
    case True
    then show ?thesis by (simp add: nat_toString.simps [of 10 x])
  next
    case False
    then have eq: "nat_toString 10 x = nat_toString 10 (x div 10) @ [digit_char (x mod 10)]"
      by (simp add: nat_toString.simps [of 10 x])
    have m: "0 < m"
    proof (rule ccontr)
      assume "\<not> 0 < m"
      with Suc.prems(1) False show False by simp
    qed
    have "x div 10 < 10 ^ m" using Suc.prems(1) by (simp add: less_mult_imp_div_less mult.commute)
    from Suc.IH [OF this m] show ?thesis unfolding eq by simp
  qed
qed

lemma Number_toString10_exact:
  assumes "0 < x" and "x < 2 ^ 53"
  shows "Number_toString10 x = nat_toString 10 x"
proof -
  define D where "D = length (nat_toString 10 x)"
  obtain k n s where t: "shortest x D [1..<D] = (k, n, s)"
    by (cases "shortest x D [1..<D]") auto
  have "x < (10::nat) ^ 16" using assms(2) by simp
  then have D16: "D \<le> 16" unfolding D_def by (rule nat_toString_length) simp
  from shortest_cases [OF t] have "render (k, n, s) = nat_toString 10 x"
  proof
    assume "k = D \<and> n = D \<and> s = x"
    with D16 show ?thesis by (simp add: render_def)
  next
    assume c: "n \<le> D + 1 \<and> 10 ^ (k - 1) \<le> s \<and> round_to_double (s * 10 ^ (n - k)) = x"
    then have v: "s * 10 ^ (n - k) = x"
      using assms(2) round_to_double_exact by blast
    have "(0::nat) < 10 ^ (k - 1)" by simp
    with c have s: "0 < s" by (simp only: less_le_trans)
    from c D16 have "n \<le> 21" by simp
    then have "render (k, n, s) = nat_toString 10 s @ replicate (n - k) CHR ''0''"
      by (simp add: render_def)
    also have "\<dots> = nat_toString 10 (s * 10 ^ (n - k))"
      using s by (simp only: nat_toString_times_10)
    finally show ?thesis unfolding v .
  qed
  moreover have "x \<noteq> 0" using assms(1) by simp
  moreover have r: "round_to_double x = x" using assms(2) by (simp add: round_to_double_def)
  ultimately show ?thesis
    unfolding Number_toString10_def Let_def r D_def [symmetric] t by simp
qed

text \<open>A Number below \<open>2\<^sup>5\<^sup>3\<close> is printed with its own digits.\<close>

lemma Number_toString_exact:
  assumes "0 \<le> n" and "n < 2 ^ 53"
  shows "Number_toString 10 n = nat_toString 10 (nat n)"
proof (cases "n = 0")
  case True
  then show ?thesis
    by (simp add: Number_toString_def Number_digits_def Number_toString10_def
        nat_toString.simps digit_char_def)
next
  case False
  with assms have "0 < nat n" and "nat n < 2 ^ 53"
    by simp_all
  then have "Number_toString10 (nat n) = nat_toString 10 (nat n)"
    by (rule Number_toString10_exact)
  with assms(1) show ?thesis
    by (simp add: Number_toString_def Number_digits_def)
qed

text \<open>Beyond \<open>2\<^sup>5\<^sup>3\<close> the digits are rounded, and from \<open>10\<^sup>2\<^sup>1\<close> on there is an exponent.\<close>

lemma Number_toString_2_60: "Number_toString 10 (2 ^ 60) = ''1152921504606847000''"
proof -
  have "Number_toString10 (2 ^ 60) = ''1152921504606847000''"
    by (simp add: Number_toString10_def round_to_double_def Let_def candidate_def render_def
        bit_length.simps nat_toString.simps digit_char_def upt_conv_Cons)
  then show ?thesis
    by (simp add: Number_toString_def Number_digits_def)
qed

lemma Number_toString_10_21: "Number_toString 10 (10 ^ 21) = ''1e+21''"
proof -
  have "Number_toString10 (10 ^ 21) = ''1e+21''"
    by (simp add: Number_toString10_def round_to_double_def Let_def candidate_def render_def
        bit_length.simps nat_toString.simps digit_char_def upt_conv_Cons)
  then show ?thesis
    by (simp add: Number_toString_def Number_digits_def)
qed

section \<open>Printing\<close>

text \<open>
  The printed form of a small document: the members on a line each, indented by two
  spaces a level, a colon and a space after a name, a number bare, a string quoted and
  escaped, an empty object without a line break.
\<close>

lemma JSON_stringify_example:
  "JSON_stringify
     (JObject [(''a'', JArray [JNumber 12, JString [CHR ''x'', CHR 0x22]]), (''b'', JObject [])])
   = ''{'' @ [CHR 0x0A]
     @ ''  '' @ [CHR 0x22] @ ''a'' @ [CHR 0x22] @ '': ['' @ [CHR 0x0A]
     @ ''    12,'' @ [CHR 0x0A]
     @ ''    '' @ [CHR 0x22] @ ''x'' @ [CHR 0x5C, CHR 0x22] @ [CHR 0x22] @ [CHR 0x0A]
     @ ''  ],'' @ [CHR 0x0A]
     @ ''  '' @ [CHR 0x22] @ ''b'' @ [CHR 0x22] @ '': {}'' @ [CHR 0x0A]
     @ ''}''"
  by (simp add: JSON_stringify_def quote_def escape_char_def Number_toString_exact
      nat_toString.simps digit_char_def)

section \<open>The branches of the two generators\<close>

lemma IDS_restrict_consumer_object:
  assumes "type config = restrict_consumer" and "consumers config = Some cs" and "cs \<noteq> []"
  shows "generateIDSPolicy_object d config =
           set_field ''ids:consumer'' (JString (hd cs)) (IDS_basePolicy d)"
  using assms by (simp add: generateIDSPolicy_object_def hd_conv_nth)

lemma ODRL_restrict_consumer_object:
  assumes "type config = restrict_consumer" and "consumers config = Some cs" and "cs \<noteq> []"
  shows "generateODRLPolicy_object now d config =
           set_permission_field ''permission'' ''assignee'' (JString (hd cs))
             (ODRL_basePolicy now d)"
  using assms by (simp add: generateODRLPolicy_object_def hd_conv_nth)

lemma IDS_time_limit_object:
  assumes "type config = time_limit" and "startTime config = Some s" and "endTime config = Some e"
    and "s \<noteq> []" and "e \<noteq> []"
  shows "generateIDSPolicy_object d config =
     set_permission_field ''ids:permission'' ''ids:constraint''
       (JArray [IDS_Constraint ''idsc:POLICY_EVALUATION_TIME'' ''idsc:AFTER'' s ''xsd:dateTimeStamp'',
                IDS_Constraint ''idsc:POLICY_EVALUATION_TIME'' ''idsc:BEFORE'' e ''xsd:dateTimeStamp''])
       (IDS_basePolicy d)"
  using assms by (simp add: generateIDSPolicy_object_def)

lemma ODRL_time_limit_object:
  assumes "type config = time_limit" and "startTime config = Some s" and "endTime config = Some e"
    and "s \<noteq> []" and "e \<noteq> []"
  shows "generateODRLPolicy_object now d config =
     set_permission_field ''permission'' ''constraint''
       (JArray [ODRL_Constraint ''dateTime'' ''gteq''
                  (JObject [(''@value'', JString s), (''@type'', JString ''xsd:dateTime'')]),
                ODRL_Constraint ''dateTime'' ''lteq''
                  (JObject [(''@value'', JString e), (''@type'', JString ''xsd:dateTime'')])])
       (ODRL_basePolicy now d)"
  using assms by (simp add: generateODRLPolicy_object_def)

lemma IDS_usage_count_object:
  assumes "type config = usage_count" and "maxUsageCount config = Some n" and "n \<noteq> 0"
  shows "generateIDSPolicy_object d config =
     set_permission_field ''ids:permission'' ''ids:constraint''
       (JArray [IDS_Constraint ''idsc:COUNT'' ''idsc:LTEQ'' (Number_toString 10 n) ''xsd:double''])
       (IDS_basePolicy d)"
  using assms by (simp add: generateIDSPolicy_object_def)

lemma ODRL_usage_count_object:
  assumes "type config = usage_count" and "maxUsageCount config = Some n" and "n \<noteq> 0"
  shows "generateODRLPolicy_object now d config =
     set_permission_field ''permission'' ''constraint''
       (JArray [ODRL_Constraint ''count'' ''lteq'' (JNumber n)])
       (ODRL_basePolicy now d)"
  using assms by (simp add: generateODRLPolicy_object_def)

lemma IDS_usage_count_zero:
  assumes "type config = usage_count" and "maxUsageCount config = Some 0"
  shows "generateIDSPolicy_object d config = IDS_basePolicy d"
  using assms by (simp add: generateIDSPolicy_object_def)

lemma ODRL_usage_count_zero:
  assumes "type config = usage_count" and "maxUsageCount config = Some 0"
  shows "generateODRLPolicy_object now d config = ODRL_basePolicy now d"
  using assms by (simp add: generateODRLPolicy_object_def)

lemma IDS_empty_object:
  assumes "parameters_empty config"
  shows "generateIDSPolicy_object d config = IDS_basePolicy d"
  using assms
  by (cases "type config")
    (auto simp add: parameters_empty_def generateIDSPolicy_object_def Let_def
      split: option.splits)

lemma ODRL_empty_object:
  assumes "parameters_empty config"
  shows "generateODRLPolicy_object now d config = ODRL_basePolicy now d"
  using assms
  by (cases "type config")
    (auto simp add: parameters_empty_def generateODRLPolicy_object_def Let_def
      split: option.splits)

text \<open>Whatever the configuration, at most one assignment is made to the base document.\<close>

lemma IDS_object_cases:
  "generateIDSPolicy_object d config = IDS_basePolicy d
   \<or> (\<exists>c. generateIDSPolicy_object d config
            = set_field ''ids:consumer'' (JString c) (IDS_basePolicy d))
   \<or> (\<exists>v. generateIDSPolicy_object d config
            = set_permission_field ''ids:permission'' ''ids:constraint'' v (IDS_basePolicy d))"
  by (cases "type config")
    (auto simp add: generateIDSPolicy_object_def Let_def split: option.splits)

lemma ODRL_object_cases:
  "generateODRLPolicy_object now d config = ODRL_basePolicy now d
   \<or> (\<exists>c. generateODRLPolicy_object now d config
            = set_permission_field ''permission'' ''assignee'' (JString c) (ODRL_basePolicy now d))
   \<or> (\<exists>v. generateODRLPolicy_object now d config
            = set_permission_field ''permission'' ''constraint'' v (ODRL_basePolicy now d))"
  by (cases "type config")
    (auto simp add: generateODRLPolicy_object_def Let_def split: option.splits)

lemma ODRL_issued:
  "generateODRLPolicy_object t2 d config
     = set_field ''dc:issued'' (JString t2) (generateODRLPolicy_object t1 d config)"
  by (cases "type config")
    (auto simp add: generateODRLPolicy_object_def ODRL_basePolicy_def Let_def
      split: option.splits)

lemma IDS_same_relevant:
  assumes "same_relevant_parameters c1 c2"
  shows "generateIDSPolicy_object d c1 = generateIDSPolicy_object d c2"
  using assms
  by (cases "type c1")
    (simp_all add: same_relevant_parameters_def generateIDSPolicy_object_def Let_def)

lemma ODRL_same_relevant:
  assumes "same_relevant_parameters c1 c2"
  shows "generateODRLPolicy_object now d c1 = generateODRLPolicy_object now d c2"
  using assms
  by (cases "type c1")
    (simp_all add: same_relevant_parameters_def generateODRLPolicy_object_def Let_def)

lemma IDS_attached_constraint:
  "IDS_permission_constraint
     (set_permission_field ''ids:permission'' ''ids:constraint'' v (IDS_basePolicy d)) = Some v"
  by (simp add: IDS_permission_constraint_def IDS_permission_def IDS_basePolicy_def)

lemma ODRL_attached_constraint:
  "ODRL_permission_constraint
     (set_permission_field ''permission'' ''constraint'' v (ODRL_basePolicy now d)) = Some v"
  by (simp add: ODRL_permission_constraint_def ODRL_permission_def ODRL_basePolicy_def)

lemma IDS_base_no_constraint: "IDS_permission_constraint (IDS_basePolicy d) = None"
  by (simp add: IDS_permission_constraint_def IDS_permission_def IDS_basePolicy_def)

lemma ODRL_base_no_constraint: "ODRL_permission_constraint (ODRL_basePolicy now d) = None"
  by (simp add: ODRL_permission_constraint_def ODRL_permission_def ODRL_basePolicy_def)

section \<open>Decimal digits\<close>

lemma decimal_value_snoc: "decimal_value (s @ [c]) = 10 * decimal_value s + (of_char c - 48)"
  by (simp add: decimal_value_def)

lemma digit_char_decimal:
  assumes "d < 10"
  shows "digit_char d \<in> set ''0123456789'' \<and> of_char (digit_char d) = 48 + d
       \<and> (digit_char d = CHR ''0'' \<longrightarrow> d = 0)"
proof -
  from assms have "d \<in> {0, 1, 2, 3, 4, 5, 6, 7, 8, 9}"
    by (simp add: insert_iff) presburger
  then show ?thesis
    by (auto simp add: digit_char_def)
qed

lemma nat_toString_decimal:
  "list_all (\<lambda>c. c \<in> set ''0123456789'') (nat_toString 10 n)
   \<and> decimal_value (nat_toString 10 n) = n
   \<and> nat_toString 10 n \<noteq> []
   \<and> (0 < n \<longrightarrow> hd (nat_toString 10 n) \<noteq> CHR ''0'')"
proof (induction n rule: less_induct)
  case (less n)
  show ?case
  proof (cases "n < 10")
    case True
    then have eq: "nat_toString 10 n = [digit_char n]"
      by (simp add: nat_toString.simps)
    from digit_char_decimal [OF True] show ?thesis
      unfolding eq by (auto simp add: decimal_value_def)
  next
    case False
    then have eq: "nat_toString 10 n = nat_toString 10 (n div 10) @ [digit_char (n mod 10)]"
      by (simp add: nat_toString.simps [of 10 n])
    have small: "n div 10 < n" and pos: "0 < n div 10"
      using False by simp_all
    have m: "n mod 10 < 10" by simp
    from less.IH [OF small] pos digit_char_decimal [OF m] show ?thesis
      unfolding eq by (simp add: decimal_value_snoc)
  qed
qed

section \<open>The frame of the two generators\<close>

lemma IDS_frame:
  assumes "doc = IDS_basePolicy d
    \<or> (\<exists>c. doc = set_field ''ids:consumer'' (JString c) (IDS_basePolicy d))
    \<or> (\<exists>v. doc = set_permission_field ''ids:permission'' ''ids:constraint'' v (IDS_basePolicy d))"
  shows "keeps ''@context'' (IDS_basePolicy d) doc"
    and "keeps ''@type'' (IDS_basePolicy d) doc"
    and "keeps ''@id'' (IDS_basePolicy d) doc"
    and "keeps ''profile'' (IDS_basePolicy d) doc"
    and "keeps ''ids:provider'' (IDS_basePolicy d) doc"
    and "names doc = names (IDS_basePolicy d)"
    and "\<exists>p bp. property ''ids:permission'' doc = Some (JArray [p])
           \<and> property ''ids:permission'' (IDS_basePolicy d) = Some (JArray [bp])
           \<and> keeps ''ids:target'' bp p \<and> keeps ''ids:action'' bp p
           \<and> (names p = names bp \<or> names p = names bp @ [''ids:constraint''])"
  using assms by (auto simp add: keeps_def IDS_basePolicy_def)

lemma ODRL_frame:
  assumes "doc = ODRL_basePolicy now d
    \<or> (\<exists>c. doc = set_permission_field ''permission'' ''assignee'' (JString c)
                    (ODRL_basePolicy now d))
    \<or> (\<exists>v. doc = set_permission_field ''permission'' ''constraint'' v (ODRL_basePolicy now d))"
  shows "keeps ''@context'' (ODRL_basePolicy now d) doc"
    and "keeps ''@type'' (ODRL_basePolicy now d) doc"
    and "keeps ''uid'' (ODRL_basePolicy now d) doc"
    and "keeps ''profile'' (ODRL_basePolicy now d) doc"
    and "keeps ''dc:creator'' (ODRL_basePolicy now d) doc"
    and "keeps ''dc:description'' (ODRL_basePolicy now d) doc"
    and "keeps ''dc:issued'' (ODRL_basePolicy now d) doc"
    and "names doc = names (ODRL_basePolicy now d)"
    and "\<exists>p bp. property ''permission'' doc = Some (JArray [p])
           \<and> property ''permission'' (ODRL_basePolicy now d) = Some (JArray [bp])
           \<and> keeps ''target'' bp p \<and> keeps ''assigner'' bp p \<and> keeps ''action'' bp p
           \<and> (names p = names bp \<or> names p = names bp @ [''constraint''])"
  using assms by (auto simp add: keeps_def ODRL_basePolicy_def)

section \<open>The random draws of the identifier generator\<close>

lemma ToInt32_random:
  assumes "0 \<le> x" and "x < 1"
  shows "ToInt32 (x * 16) \<in> {0..15}"
proof -
  have lo: "0 \<le> \<lfloor>x * 16\<rfloor>" using assms by simp
  have "x * 16 < 16" using assms by simp
  then have hi: "\<lfloor>x * 16\<rfloor> < 16" by (simp add: floor_less_iff)
  have "ToInt32 (x * 16) = \<lfloor>x * 16\<rfloor>"
    using assms lo hi by (simp add: ToInt32_def)
  with lo hi show ?thesis by simp
qed

lemma small_int_cases:
  assumes "(r::int) \<in> {0..15}"
  shows "r \<in> {0, 1, 2, 3, 4, 5, 6, 7, 8, 9, 10, 11, 12, 13, 14, 15}"
  using assms by (simp add: atLeastAtMost_iff) presburger

lemma nat_toString_digit: "n < radix \<Longrightarrow> nat_toString radix n = [digit_char n]"
  by (simp add: nat_toString.simps)

lemma replacer_x:
  assumes "0 \<le> shd rnd" and "shd rnd < 1"
  shows "\<exists>c. replacer CHR ''x'' rnd = ([c], stl rnd) \<and> c \<in> set ''0123456789abcdef''"
proof -
  from assms have "ToInt32 (shd rnd * 16) \<in> {0..15}" by (rule ToInt32_random)
  then have "ToInt32 (shd rnd * 16) \<in> {0, 1, 2, 3, 4, 5, 6, 7, 8, 9, 10, 11, 12, 13, 14, 15}"
    by (rule small_int_cases)
  then show ?thesis
    by (auto simp add: replacer_def Number_toString_def Number_digits_def nat_toString_digit
        digit_char_def)
qed

lemma replacer_y:
  assumes "0 \<le> shd rnd" and "shd rnd < 1"
  shows "\<exists>c. replacer CHR ''y'' rnd = ([c], stl rnd) \<and> c \<in> set ''89ab''"
proof -
  from assms have "ToInt32 (shd rnd * 16) \<in> {0..15}" by (rule ToInt32_random)
  then have "ToInt32 (shd rnd * 16) \<in> {0, 1, 2, 3, 4, 5, 6, 7, 8, 9, 10, 11, 12, 13, 14, 15}"
    by (rule small_int_cases)
  then show ?thesis
    by (auto simp add: replacer_def Number_toString_def Number_digits_def nat_toString_digit
        digit_char_def)
qed


lemma replace_xy_literal:
  assumes "t \<noteq> CHR ''x''" and "t \<noteq> CHR ''y''"
  shows "replace_xy (t # ts) rnd = (t # fst (replace_xy ts rnd), snd (replace_xy ts rnd))"
  using assms by (cases "replace_xy ts rnd") simp

lemma replace_xy_match:
  assumes "t = CHR ''x'' \<or> t = CHR ''y''" and "replacer t rnd = (s, rnd')"
  shows "replace_xy (t # ts) rnd = (s @ fst (replace_xy ts rnd'), snd (replace_xy ts rnd'))"
  using assms by (cases "replace_xy ts rnd'") auto


lemma replace_xy_layout:
  assumes "\<forall>x \<in> sset rnd. 0 \<le> x \<and> x < 1"
  shows "list_all2 uuid_slot template (fst (replace_xy template rnd))"
  using assms
proof (induction template arbitrary: rnd)
  case Nil
  then show ?case by simp
next
  case (Cons t ts)
  have "shd rnd \<in> sset rnd"
    by (rule shd_sset)
  with Cons.prems have "0 \<le> shd rnd \<and> shd rnd < 1"
    by (rule bspec)
  then have head: "0 \<le> shd rnd" "shd rnd < 1"
    by simp_all
  have tail: "\<forall>x \<in> sset (stl rnd). 0 \<le> x \<and> x < 1"
  proof
    fix x
    assume "x \<in> sset (stl rnd)"
    then have "x \<in> sset rnd"
      by (rule stl_sset)
    with Cons.prems show "0 \<le> x \<and> x < 1"
      by (rule bspec)
  qed
  consider (x) "t = CHR ''x''" | (y) "t = CHR ''y''" | (literal) "t \<noteq> CHR ''x''" "t \<noteq> CHR ''y''"
    by blast
  then show ?case
  proof cases
    case x
    from replacer_x [OF head] obtain c
      where c: "replacer CHR ''x'' rnd = ([c], stl rnd)" "c \<in> set ''0123456789abcdef''"
      by blast
    have slot: "uuid_slot t c"
      using x c(2) by (simp add: uuid_slot_def)
    have "replace_xy (t # ts) rnd = ([c] @ fst (replace_xy ts (stl rnd)), snd (replace_xy ts (stl rnd)))"
      using x c(1) by (intro replace_xy_match) simp_all
    with slot Cons.IH [OF tail] show ?thesis by simp
  next
    case y
    from replacer_y [OF head] obtain c
      where c: "replacer CHR ''y'' rnd = ([c], stl rnd)" "c \<in> set ''89ab''"
      by blast
    have slot: "uuid_slot t c"
      using y c(2) by (simp add: uuid_slot_def)
    have "replace_xy (t # ts) rnd = ([c] @ fst (replace_xy ts (stl rnd)), snd (replace_xy ts (stl rnd)))"
      using y c(1) by (intro replace_xy_match) simp_all
    with slot Cons.IH [OF tail] show ?thesis by simp
  next
    case literal
    then have "uuid_slot t t" by (simp add: uuid_slot_def)
    with replace_xy_literal [OF literal] Cons.IH [OF Cons.prems] show ?thesis by simp
  qed
qed


lemma replacer_rest: "snd (replacer c rnd) = stl rnd"
  by (simp add: replacer_def Let_def)

lemma replace_xy_rest:
  "snd (replace_xy template rnd)
     = sdrop (length (filter (\<lambda>c. c = CHR ''x'' \<or> c = CHR ''y'') template)) rnd"
proof (induction template arbitrary: rnd)
  case Nil
  show ?case by simp
next
  case (Cons t ts)
  show ?case
  proof (cases "t = CHR ''x'' \<or> t = CHR ''y''")
    case True
    have "replace_xy (t # ts) rnd
        = (fst (replacer t rnd) @ fst (replace_xy ts (stl rnd)), snd (replace_xy ts (stl rnd)))"
      using True replacer_rest [of t rnd]
      by (intro replace_xy_match) (simp_all add: prod_eq_iff)
    with True Cons.IH [of "stl rnd"] show ?thesis by auto
  next
    case False
    then have "t \<noteq> CHR ''x''" "t \<noteq> CHR ''y''" by simp_all
    from replace_xy_literal [OF this] False Cons.IH [of rnd] show ?thesis by simp
  qed
qed


section \<open>RestrictConsumer\<close>

text \<open>
  C1. With the type \<^verbatim>\<open>restrict_consumer\<close> and a non-empty list of consumers, the field
  \<^verbatim>\<open>ids:consumer\<close> of the IDS document and the field \<^verbatim>\<open>assignee\<close> of the one ODRL
  permission are the first consumer, as a string. The consumers after the first do not
  reach the output: both printed documents are the same whatever list \<open>cs'\<close> follows the
  first consumer. A later consumer is a property name or a string value of a generated
  document only if it is the first consumer as well, or a property name or a string value
  of the base document.
\<close>

theorem restrict_consumer_first_only:
  assumes "type config = restrict_consumer" and "consumers config = Some cs" and "cs \<noteq> []"
  shows "property ''ids:consumer'' (generateIDSPolicy_object d config) = Some (JString (hd cs))
       \<and> Option.bind (ODRL_permission (generateODRLPolicy_object now d config))
           (property ''assignee'') = Some (JString (hd cs))
       \<and> generateIDSPolicy d (config\<lparr>consumers := Some (hd cs # cs')\<rparr>)
           = generateIDSPolicy d config
       \<and> generateODRLPolicy now d (config\<lparr>consumers := Some (hd cs # cs')\<rparr>)
           = generateODRLPolicy now d config
       \<and> (\<forall>x \<in> set (tl cs). x \<noteq> hd cs \<and> x \<notin> set (strings_of (IDS_basePolicy d))
             \<longrightarrow> x \<notin> set (strings_of (generateIDSPolicy_object d config)))
       \<and> (\<forall>x \<in> set (tl cs). x \<noteq> hd cs \<and> x \<notin> set (strings_of (ODRL_basePolicy now d))
             \<longrightarrow> x \<notin> set (strings_of (generateODRLPolicy_object now d config)))"
proof -
  have ids: "generateIDSPolicy_object d config =
      set_field ''ids:consumer'' (JString (hd cs)) (IDS_basePolicy d)"
    using assms by (rule IDS_restrict_consumer_object)
  have odrl: "generateODRLPolicy_object now d config =
      set_permission_field ''permission'' ''assignee'' (JString (hd cs)) (ODRL_basePolicy now d)"
    using assms by (rule ODRL_restrict_consumer_object)
  have ids': "generateIDSPolicy_object d (config\<lparr>consumers := Some (hd cs # cs')\<rparr>) =
      set_field ''ids:consumer'' (JString (hd cs)) (IDS_basePolicy d)"
    using assms(1) by (simp add: IDS_restrict_consumer_object)
  have odrl': "generateODRLPolicy_object now d (config\<lparr>consumers := Some (hd cs # cs')\<rparr>) =
      set_permission_field ''permission'' ''assignee'' (JString (hd cs)) (ODRL_basePolicy now d)"
    using assms(1) by (simp add: ODRL_restrict_consumer_object)
  have consumer: "property ''ids:consumer'' (generateIDSPolicy_object d config)
      = Some (JString (hd cs))"
    by (simp add: ids IDS_basePolicy_def)
  have assignee: "Option.bind (ODRL_permission (generateODRLPolicy_object now d config))
      (property ''assignee'') = Some (JString (hd cs))"
    by (simp add: odrl ODRL_basePolicy_def ODRL_permission_def)
  have ids_tail: "generateIDSPolicy d (config\<lparr>consumers := Some (hd cs # cs')\<rparr>)
      = generateIDSPolicy d config"
    by (simp only: generateIDSPolicy_def ids ids')
  have odrl_tail: "generateODRLPolicy now d (config\<lparr>consumers := Some (hd cs # cs')\<rparr>)
      = generateODRLPolicy now d config"
    by (simp only: generateODRLPolicy_def odrl odrl')
  have ids_absent: "\<forall>x \<in> set (tl cs). x \<noteq> hd cs \<and> x \<notin> set (strings_of (IDS_basePolicy d))
      \<longrightarrow> x \<notin> set (strings_of (generateIDSPolicy_object d config))"
    by (simp add: ids IDS_basePolicy_def)
  have odrl_absent: "\<forall>x \<in> set (tl cs). x \<noteq> hd cs \<and> x \<notin> set (strings_of (ODRL_basePolicy now d))
      \<longrightarrow> x \<notin> set (strings_of (generateODRLPolicy_object now d config))"
    by (simp add: odrl ODRL_basePolicy_def)
  show ?thesis
    by (intro conjI consumer assignee ids_tail odrl_tail ids_absent odrl_absent)
qed

theorem restrict_consumer_first_only_witness:
  "type (initial_config\<lparr>consumers := Some [''c1'', ''c2'']\<rparr>) = restrict_consumer
   \<and> consumers (initial_config\<lparr>consumers := Some [''c1'', ''c2'']\<rparr>) = Some [''c1'', ''c2'']
   \<and> [''c1'', ''c2''] \<noteq> ([] :: string list)
   \<and> property ''ids:consumer''
       (generateIDSPolicy_object example_dataset
          (initial_config\<lparr>consumers := Some [''c1'', ''c2'']\<rparr>)) = Some (JString ''c1'')
   \<and> Option.bind
       (ODRL_permission (generateODRLPolicy_object ''2024-05-01T08:30:00.000Z'' example_dataset
          (initial_config\<lparr>consumers := Some [''c1'', ''c2'']\<rparr>)))
       (property ''assignee'') = Some (JString ''c1'')
   \<and> ''c2'' \<in> set (tl [''c1'', ''c2''])
   \<and> ''c2'' \<noteq> hd [''c1'', ''c2'']
   \<and> ''c2'' \<notin> set (strings_of (IDS_basePolicy example_dataset))
   \<and> ''c2'' \<notin> set (strings_of (ODRL_basePolicy ''2024-05-01T08:30:00.000Z'' example_dataset))
   \<and> ''c2'' \<notin> set (strings_of (generateIDSPolicy_object example_dataset
          (initial_config\<lparr>consumers := Some [''c1'', ''c2'']\<rparr>)))
   \<and> ''c2'' \<notin> set (strings_of
          (generateODRLPolicy_object ''2024-05-01T08:30:00.000Z'' example_dataset
             (initial_config\<lparr>consumers := Some [''c1'', ''c2'']\<rparr>)))"
  using restrict_consumer_first_only
    [of "initial_config\<lparr>consumers := Some [''c1'', ''c2'']\<rparr>" "[''c1'', ''c2'']"
        example_dataset "''2024-05-01T08:30:00.000Z''" "[]"]
  by (simp add: initial_config_def example_dataset_def IDS_basePolicy_def ODRL_basePolicy_def)

text \<open>
  Both provisos are needed. The second consumer \<^verbatim>\<open>use\<close> is the action of the ODRL
  permission, whatever the consumers are; the second consumer \<^verbatim>\<open>c1\<close> of the list
  \<^verbatim>\<open>c1\<close>, \<^verbatim>\<open>c1\<close> is \<^verbatim>\<open>ids:consumer\<close> of the IDS document.
\<close>

theorem later_consumer_counterexample:
  "type (initial_config\<lparr>consumers := Some [''c1'', ''use'']\<rparr>) = restrict_consumer
   \<and> consumers (initial_config\<lparr>consumers := Some [''c1'', ''use'']\<rparr>) = Some [''c1'', ''use'']
   \<and> ''use'' \<in> set (tl [''c1'', ''use''])
   \<and> ''use'' \<in> set (strings_of
         (generateODRLPolicy_object ''2024-05-01T08:30:00.000Z'' example_dataset
            (initial_config\<lparr>consumers := Some [''c1'', ''use'']\<rparr>)))
   \<and> type (initial_config\<lparr>consumers := Some [''c1'', ''c1'']\<rparr>) = restrict_consumer
   \<and> consumers (initial_config\<lparr>consumers := Some [''c1'', ''c1'']\<rparr>) = Some [''c1'', ''c1'']
   \<and> ''c1'' \<in> set (tl [''c1'', ''c1''])
   \<and> ''c1'' \<in> set (strings_of
         (generateIDSPolicy_object example_dataset
            (initial_config\<lparr>consumers := Some [''c1'', ''c1'']\<rparr>)))"
proof -
  have odrl: "generateODRLPolicy_object ''2024-05-01T08:30:00.000Z'' example_dataset
      (initial_config\<lparr>consumers := Some [''c1'', ''use'']\<rparr>)
    = set_permission_field ''permission'' ''assignee'' (JString ''c1'')
        (ODRL_basePolicy ''2024-05-01T08:30:00.000Z'' example_dataset)"
    by (simp add: ODRL_restrict_consumer_object [of _ "[''c1'', ''use'']"] initial_config_def)
  have ids: "generateIDSPolicy_object example_dataset
      (initial_config\<lparr>consumers := Some [''c1'', ''c1'']\<rparr>)
    = set_field ''ids:consumer'' (JString ''c1'') (IDS_basePolicy example_dataset)"
    by (simp add: IDS_restrict_consumer_object [of _ "[''c1'', ''c1'']"] initial_config_def)
  show ?thesis
    unfolding odrl ids
    by (simp add: initial_config_def ODRL_basePolicy_def IDS_basePolicy_def)
qed

section \<open>TimeWindow\<close>

text \<open>
  C2. With the type \<^verbatim>\<open>time_limit\<close> and two non-empty time strings \<open>s\<close> and \<open>e\<close>, of
  which nothing else is asked (no order between them), the one IDS permission gets a
  constraint list of two elements, \<^verbatim>\<open>idsc:AFTER\<close> with \<open>s\<close> and then
  \<^verbatim>\<open>idsc:BEFORE\<close> with \<open>e\<close>, both on \<^verbatim>\<open>idsc:POLICY_EVALUATION_TIME\<close> and of the
  datatype \<^verbatim>\<open>xsd:dateTimeStamp\<close>; the one ODRL permission gets a constraint list of
  two elements, \<^verbatim>\<open>gteq\<close> with \<open>s\<close> and then \<^verbatim>\<open>lteq\<close> with \<open>e\<close>, both on
  \<^verbatim>\<open>dateTime\<close> and of the datatype \<^verbatim>\<open>xsd:dateTime\<close>.
\<close>

theorem time_limit_constraints:
  assumes "type config = time_limit" and "startTime config = Some s" and "endTime config = Some e"
    and "s \<noteq> []" and "e \<noteq> []"
  shows "IDS_permission_constraint (generateIDSPolicy_object d config) = Some (JArray
           [JObject
              [(''@type'', JString ''ids:Constraint''),
               (''ids:leftOperand'', JObject [(''@id'', JString ''idsc:POLICY_EVALUATION_TIME'')]),
               (''ids:operator'', JObject [(''@id'', JString ''idsc:AFTER'')]),
               (''ids:rightOperand'', JArray
                  [JObject [(''@value'', JString s), (''@type'', JString ''xsd:dateTimeStamp'')]])],
            JObject
              [(''@type'', JString ''ids:Constraint''),
               (''ids:leftOperand'', JObject [(''@id'', JString ''idsc:POLICY_EVALUATION_TIME'')]),
               (''ids:operator'', JObject [(''@id'', JString ''idsc:BEFORE'')]),
               (''ids:rightOperand'', JArray
                  [JObject [(''@value'', JString e), (''@type'', JString ''xsd:dateTimeStamp'')]])]])
       \<and> ODRL_permission_constraint (generateODRLPolicy_object now d config) = Some (JArray
           [JObject
              [(''leftOperand'', JString ''dateTime''),
               (''operator'', JString ''gteq''),
               (''rightOperand'',
                  JObject [(''@value'', JString s), (''@type'', JString ''xsd:dateTime'')])],
            JObject
              [(''leftOperand'', JString ''dateTime''),
               (''operator'', JString ''lteq''),
               (''rightOperand'',
                  JObject [(''@value'', JString e), (''@type'', JString ''xsd:dateTime'')])]])
       \<and> (\<exists>p. property ''ids:permission'' (generateIDSPolicy_object d config) = Some (JArray [p]))
       \<and> (\<exists>p. property ''permission'' (generateODRLPolicy_object now d config)
              = Some (JArray [p]))"
proof -
  have ids: "IDS_permission_constraint (generateIDSPolicy_object d config) = Some (JArray
       [IDS_Constraint ''idsc:POLICY_EVALUATION_TIME'' ''idsc:AFTER'' s ''xsd:dateTimeStamp'',
        IDS_Constraint ''idsc:POLICY_EVALUATION_TIME'' ''idsc:BEFORE'' e ''xsd:dateTimeStamp''])"
    by (simp only: IDS_time_limit_object [OF assms] IDS_attached_constraint)
  have odrl: "ODRL_permission_constraint (generateODRLPolicy_object now d config) = Some (JArray
       [ODRL_Constraint ''dateTime'' ''gteq''
          (JObject [(''@value'', JString s), (''@type'', JString ''xsd:dateTime'')]),
        ODRL_Constraint ''dateTime'' ''lteq''
          (JObject [(''@value'', JString e), (''@type'', JString ''xsd:dateTime'')])])"
    by (simp only: ODRL_time_limit_object [OF assms] ODRL_attached_constraint)
  have one_ids: "\<exists>p. property ''ids:permission'' (generateIDSPolicy_object d config)
      = Some (JArray [p])"
    by (simp add: IDS_time_limit_object [OF assms] IDS_basePolicy_def)
  have one_odrl: "\<exists>p. property ''permission'' (generateODRLPolicy_object now d config)
      = Some (JArray [p])"
    by (simp add: ODRL_time_limit_object [OF assms] ODRL_basePolicy_def)
  show ?thesis
    unfolding ids odrl IDS_Constraint_def ODRL_Constraint_def
    using one_ids one_odrl by simp
qed

theorem time_limit_constraints_witness:
  "type (initial_config\<lparr>type := time_limit, startTime := Some ''2024-06-01T00:00'',
       endTime := Some ''2024-01-01T00:00''\<rparr>) = time_limit
   \<and> ''2024-06-01T00:00'' \<noteq> [] \<and> ''2024-01-01T00:00'' \<noteq> []
   \<and> IDS_permission_constraint (generateIDSPolicy_object example_dataset
        (initial_config\<lparr>type := time_limit, startTime := Some ''2024-06-01T00:00'',
           endTime := Some ''2024-01-01T00:00''\<rparr>))
      = Some (JArray
          [IDS_Constraint ''idsc:POLICY_EVALUATION_TIME'' ''idsc:AFTER'' ''2024-06-01T00:00''
             ''xsd:dateTimeStamp'',
           IDS_Constraint ''idsc:POLICY_EVALUATION_TIME'' ''idsc:BEFORE'' ''2024-01-01T00:00''
             ''xsd:dateTimeStamp''])
   \<and> ODRL_permission_constraint
        (generateODRLPolicy_object ''2024-05-01T08:30:00.000Z'' example_dataset
           (initial_config\<lparr>type := time_limit, startTime := Some ''2024-06-01T00:00'',
              endTime := Some ''2024-01-01T00:00''\<rparr>))
      = Some (JArray
          [ODRL_Constraint ''dateTime'' ''gteq''
             (JObject [(''@value'', JString ''2024-06-01T00:00''),
                       (''@type'', JString ''xsd:dateTime'')]),
           ODRL_Constraint ''dateTime'' ''lteq''
             (JObject [(''@value'', JString ''2024-01-01T00:00''),
                       (''@type'', JString ''xsd:dateTime'')])])"
  using time_limit_constraints
    [of "initial_config\<lparr>type := time_limit, startTime := Some ''2024-06-01T00:00'',
           endTime := Some ''2024-01-01T00:00''\<rparr>"
        "''2024-06-01T00:00''" "''2024-01-01T00:00''" example_dataset
        "''2024-05-01T08:30:00.000Z''"]
  by (simp add: initial_config_def IDS_Constraint_def ODRL_Constraint_def)

section \<open>UsageCount\<close>

text \<open>
  C3. With the type \<^verbatim>\<open>usage_count\<close> and a positive \<^verbatim>\<open>maxUsageCount\<close> \<open>n\<close>, the IDS
  permission gets one constraint, \<^verbatim>\<open>idsc:COUNT\<close> \<^verbatim>\<open>idsc:LTEQ\<close>, whose right operand
  has the datatype \<^verbatim>\<open>xsd:double\<close> and as value the string that \<^verbatim>\<open>toString\<close> makes
  of \<open>n\<close>; the ODRL permission gets one constraint, \<^verbatim>\<open>count\<close> \<^verbatim>\<open>lteq\<close>, whose
  right operand is the number \<open>n\<close> itself. When \<open>n\<close> is below \<open>2\<^sup>5\<^sup>3\<close>, the string is
  the decimal string of \<open>n\<close>: decimal digits only, no leading zero, denoting \<open>n\<close>.
\<close>

theorem usage_count_constraint:
  assumes "type config = usage_count" and "maxUsageCount config = Some n" and "0 < n"
  shows "IDS_permission_constraint (generateIDSPolicy_object d config) = Some (JArray
           [JObject
              [(''@type'', JString ''ids:Constraint''),
               (''ids:leftOperand'', JObject [(''@id'', JString ''idsc:COUNT'')]),
               (''ids:operator'', JObject [(''@id'', JString ''idsc:LTEQ'')]),
               (''ids:rightOperand'', JArray
                  [JObject [(''@value'', JString (Number_toString 10 n)),
                            (''@type'', JString ''xsd:double'')]])]])
       \<and> ODRL_permission_constraint (generateODRLPolicy_object now d config) = Some (JArray
           [JObject
              [(''leftOperand'', JString ''count''),
               (''operator'', JString ''lteq''),
               (''rightOperand'', JNumber n)]])
       \<and> (n < 2 ^ 53 \<longrightarrow>
            list_all (\<lambda>c. c \<in> set ''0123456789'') (Number_toString 10 n)
          \<and> hd (Number_toString 10 n) \<noteq> CHR ''0''
          \<and> int (decimal_value (Number_toString 10 n)) = n)"
proof -
  from assms(3) have nonzero: "n \<noteq> 0"
    by simp
  have ids: "IDS_permission_constraint (generateIDSPolicy_object d config) = Some (JArray
       [IDS_Constraint ''idsc:COUNT'' ''idsc:LTEQ'' (Number_toString 10 n) ''xsd:double''])"
    by (simp only: IDS_usage_count_object [OF assms(1,2) nonzero] IDS_attached_constraint)
  have odrl: "ODRL_permission_constraint (generateODRLPolicy_object now d config) = Some (JArray
       [ODRL_Constraint ''count'' ''lteq'' (JNumber n)])"
    by (simp only: ODRL_usage_count_object [OF assms(1,2) nonzero] ODRL_attached_constraint)
  have decimal: "list_all (\<lambda>c. c \<in> set ''0123456789'') (Number_toString 10 n)
      \<and> hd (Number_toString 10 n) \<noteq> CHR ''0''
      \<and> int (decimal_value (Number_toString 10 n)) = n" if small: "n < 2 ^ 53"
  proof -
    from assms(3) small have str: "Number_toString 10 n = nat_toString 10 (nat n)"
      by (simp add: Number_toString_exact)
    from assms(3) have pos: "0 < nat n"
      by simp
    from nat_toString_decimal [of "nat n"] pos assms(3) show ?thesis
      unfolding str by simp
  qed
  show ?thesis
    unfolding ids odrl IDS_Constraint_def ODRL_Constraint_def
    using decimal by simp
qed

theorem usage_count_constraint_witness:
  "type (initial_config\<lparr>type := usage_count, maxUsageCount := Some 5\<rparr>) = usage_count
   \<and> maxUsageCount (initial_config\<lparr>type := usage_count, maxUsageCount := Some 5\<rparr>) = Some 5
   \<and> (0 :: int) < 5 \<and> (5 :: int) < 2 ^ 53
   \<and> Number_toString 10 5 = ''5''
   \<and> int (decimal_value (Number_toString 10 5)) = 5
   \<and> IDS_permission_constraint (generateIDSPolicy_object example_dataset
        (initial_config\<lparr>type := usage_count, maxUsageCount := Some 5\<rparr>))
      = Some (JArray [IDS_Constraint ''idsc:COUNT'' ''idsc:LTEQ'' ''5'' ''xsd:double''])
   \<and> ODRL_permission_constraint
        (generateODRLPolicy_object ''2024-05-01T08:30:00.000Z'' example_dataset
           (initial_config\<lparr>type := usage_count, maxUsageCount := Some 5\<rparr>))
      = Some (JArray [ODRL_Constraint ''count'' ''lteq'' (JNumber 5)])"
proof -
  have five: "Number_toString 10 5 = ''5''"
    by (simp add: Number_toString_exact nat_toString.simps digit_char_def)
  from usage_count_constraint
    [of "initial_config\<lparr>type := usage_count, maxUsageCount := Some 5\<rparr>" 5 example_dataset
        "''2024-05-01T08:30:00.000Z''"]
  show ?thesis
    by (simp add: five initial_config_def IDS_Constraint_def ODRL_Constraint_def)
qed

text \<open>
  The bound is needed. \<open>2\<^sup>6\<^sup>0\<close> is a Number, and \<^verbatim>\<open>parseInt\<close> makes it of its digits
  \<^verbatim>\<open>1152921504606846976\<close>; the value that the IDS constraint gets for it has digits only
  and denotes another number. \<open>10\<^sup>2\<^sup>1\<close> is a Number too, and the value that the IDS
  constraint gets for it is not made of digits only.
\<close>

theorem usage_count_large_counterexample:
  "type (initial_config\<lparr>type := usage_count, maxUsageCount := Some (2 ^ 60)\<rparr>) = usage_count
   \<and> maxUsageCount (initial_config\<lparr>type := usage_count, maxUsageCount := Some (2 ^ 60)\<rparr>)
       = Some (2 ^ 60)
   \<and> (0 :: int) < 2 ^ 60
   \<and> round_to_double (2 ^ 60) = 2 ^ 60
   \<and> IDS_permission_constraint (generateIDSPolicy_object example_dataset
        (initial_config\<lparr>type := usage_count, maxUsageCount := Some (2 ^ 60)\<rparr>))
      = Some (JArray
          [IDS_Constraint ''idsc:COUNT'' ''idsc:LTEQ'' ''1152921504606847000'' ''xsd:double''])
   \<and> int (decimal_value ''1152921504606847000'') \<noteq> 2 ^ 60
   \<and> type (initial_config\<lparr>type := usage_count, maxUsageCount := Some (10 ^ 21)\<rparr>) = usage_count
   \<and> maxUsageCount (initial_config\<lparr>type := usage_count, maxUsageCount := Some (10 ^ 21)\<rparr>)
       = Some (10 ^ 21)
   \<and> (0 :: int) < 10 ^ 21
   \<and> round_to_double (10 ^ 21) = 10 ^ 21
   \<and> IDS_permission_constraint (generateIDSPolicy_object example_dataset
        (initial_config\<lparr>type := usage_count, maxUsageCount := Some (10 ^ 21)\<rparr>))
      = Some (JArray [IDS_Constraint ''idsc:COUNT'' ''idsc:LTEQ'' ''1e+21'' ''xsd:double''])
   \<and> \<not> list_all (\<lambda>c. c \<in> set ''0123456789'') ''1e+21''"
proof -
  have a: "IDS_permission_constraint (generateIDSPolicy_object example_dataset
        (initial_config\<lparr>type := usage_count, maxUsageCount := Some (2 ^ 60)\<rparr>))
      = Some (JArray
          [IDS_Constraint ''idsc:COUNT'' ''idsc:LTEQ'' ''1152921504606847000'' ''xsd:double''])"
  proof -
    have "generateIDSPolicy_object example_dataset
        (initial_config\<lparr>type := usage_count, maxUsageCount := Some (2 ^ 60)\<rparr>)
      = set_permission_field ''ids:permission'' ''ids:constraint''
          (JArray [IDS_Constraint ''idsc:COUNT'' ''idsc:LTEQ'' (Number_toString 10 (2 ^ 60))
                     ''xsd:double''])
          (IDS_basePolicy example_dataset)"
      by (rule IDS_usage_count_object) (simp_all add: initial_config_def)
    then show ?thesis
      by (simp only: IDS_attached_constraint Number_toString_2_60)
  qed
  have b: "IDS_permission_constraint (generateIDSPolicy_object example_dataset
        (initial_config\<lparr>type := usage_count, maxUsageCount := Some (10 ^ 21)\<rparr>))
      = Some (JArray [IDS_Constraint ''idsc:COUNT'' ''idsc:LTEQ'' ''1e+21'' ''xsd:double''])"
  proof -
    have "generateIDSPolicy_object example_dataset
        (initial_config\<lparr>type := usage_count, maxUsageCount := Some (10 ^ 21)\<rparr>)
      = set_permission_field ''ids:permission'' ''ids:constraint''
          (JArray [IDS_Constraint ''idsc:COUNT'' ''idsc:LTEQ'' (Number_toString 10 (10 ^ 21))
                     ''xsd:double''])
          (IDS_basePolicy example_dataset)"
      by (rule IDS_usage_count_object) (simp_all add: initial_config_def)
    then show ?thesis
      by (simp only: IDS_attached_constraint Number_toString_10_21)
  qed
  have c: "int (decimal_value ''1152921504606847000'') \<noteq> 2 ^ 60"
    by (simp add: decimal_value_def)
  have e: "round_to_double (2 ^ 60) = 2 ^ 60" "round_to_double (10 ^ 21) = 10 ^ 21"
    by (simp_all add: round_to_double_def Let_def bit_length.simps)
  from a b c e show ?thesis
    by simp
qed

text \<open>
  C9. With the type \<^verbatim>\<open>usage_count\<close>, a \<^verbatim>\<open>maxUsageCount\<close> of 0 is falsy: both
  generators leave the base document as it is. A negative \<^verbatim>\<open>maxUsageCount\<close> \<open>n\<close> is
  truthy: the IDS permission gets the count constraint with the string of \<open>n\<close>, a minus
  sign followed by the string of \<open>- n\<close>, and the ODRL permission gets the count constraint
  with the number \<open>n\<close>.
\<close>

theorem usage_count_zero_and_negative:
  assumes "type config = usage_count" and "maxUsageCount config = Some n"
  shows "(n = 0 \<longrightarrow>
            generateIDSPolicy_object d config = IDS_basePolicy d
          \<and> generateODRLPolicy_object now d config = ODRL_basePolicy now d
          \<and> IDS_permission_constraint (generateIDSPolicy_object d config) = None
          \<and> ODRL_permission_constraint (generateODRLPolicy_object now d config) = None)
       \<and> (n < 0 \<longrightarrow>
            IDS_permission_constraint (generateIDSPolicy_object d config) = Some (JArray
              [JObject
                 [(''@type'', JString ''ids:Constraint''),
                  (''ids:leftOperand'', JObject [(''@id'', JString ''idsc:COUNT'')]),
                  (''ids:operator'', JObject [(''@id'', JString ''idsc:LTEQ'')]),
                  (''ids:rightOperand'', JArray
                     [JObject [(''@value'', JString (CHR ''-'' # Number_toString 10 (- n))),
                               (''@type'', JString ''xsd:double'')]])]])
          \<and> ODRL_permission_constraint (generateODRLPolicy_object now d config) = Some (JArray
              [JObject
                 [(''leftOperand'', JString ''count''),
                  (''operator'', JString ''lteq''),
                  (''rightOperand'', JNumber n)]]))"
proof (intro conjI impI)
  assume zero: "n = 0"
  from assms(2) zero have m: "maxUsageCount config = Some 0"
    by simp
  show "generateIDSPolicy_object d config = IDS_basePolicy d"
    using assms(1) m by (rule IDS_usage_count_zero)
  then show "IDS_permission_constraint (generateIDSPolicy_object d config) = None"
    by (simp only: IDS_base_no_constraint)
  show "generateODRLPolicy_object now d config = ODRL_basePolicy now d"
    using assms(1) m by (rule ODRL_usage_count_zero)
  then show "ODRL_permission_constraint (generateODRLPolicy_object now d config) = None"
    by (simp only: ODRL_base_no_constraint)
next
  assume neg: "n < 0"
  then have nonzero: "n \<noteq> 0"
    by simp
  from neg have str: "Number_toString 10 n = CHR ''-'' # Number_toString 10 (- n)"
    by (simp add: Number_toString_def)
  have "IDS_permission_constraint (generateIDSPolicy_object d config) = Some (JArray
       [IDS_Constraint ''idsc:COUNT'' ''idsc:LTEQ'' (Number_toString 10 n) ''xsd:double''])"
    by (simp only: IDS_usage_count_object [OF assms nonzero] IDS_attached_constraint)
  then show "IDS_permission_constraint (generateIDSPolicy_object d config) = Some (JArray
       [JObject
          [(''@type'', JString ''ids:Constraint''),
           (''ids:leftOperand'', JObject [(''@id'', JString ''idsc:COUNT'')]),
           (''ids:operator'', JObject [(''@id'', JString ''idsc:LTEQ'')]),
           (''ids:rightOperand'', JArray
              [JObject [(''@value'', JString (CHR ''-'' # Number_toString 10 (- n))),
                        (''@type'', JString ''xsd:double'')]])]])"
    by (simp add: IDS_Constraint_def str)
  have "ODRL_permission_constraint (generateODRLPolicy_object now d config) = Some (JArray
       [ODRL_Constraint ''count'' ''lteq'' (JNumber n)])"
    by (simp only: ODRL_usage_count_object [OF assms nonzero] ODRL_attached_constraint)
  then show "ODRL_permission_constraint (generateODRLPolicy_object now d config) = Some (JArray
       [JObject
          [(''leftOperand'', JString ''count''),
           (''operator'', JString ''lteq''),
           (''rightOperand'', JNumber n)]])"
    by (simp add: ODRL_Constraint_def)
qed

theorem usage_count_zero_and_negative_witness:
  "type (initial_config\<lparr>type := usage_count, maxUsageCount := Some 0\<rparr>) = usage_count
   \<and> maxUsageCount (initial_config\<lparr>type := usage_count, maxUsageCount := Some 0\<rparr>) = Some 0
   \<and> generateIDSPolicy_object example_dataset
        (initial_config\<lparr>type := usage_count, maxUsageCount := Some 0\<rparr>)
      = IDS_basePolicy example_dataset
   \<and> generateODRLPolicy_object ''2024-05-01T08:30:00.000Z'' example_dataset
        (initial_config\<lparr>type := usage_count, maxUsageCount := Some 0\<rparr>)
      = ODRL_basePolicy ''2024-05-01T08:30:00.000Z'' example_dataset
   \<and> type (initial_config\<lparr>type := usage_count, maxUsageCount := Some (- 3)\<rparr>) = usage_count
   \<and> maxUsageCount (initial_config\<lparr>type := usage_count, maxUsageCount := Some (- 3)\<rparr>)
      = Some (- 3)
   \<and> (- 3 :: int) < 0
   \<and> CHR ''-'' # Number_toString 10 (- (- 3)) = ''-3''
   \<and> IDS_permission_constraint (generateIDSPolicy_object example_dataset
        (initial_config\<lparr>type := usage_count, maxUsageCount := Some (- 3)\<rparr>))
      = Some (JArray [IDS_Constraint ''idsc:COUNT'' ''idsc:LTEQ'' ''-3'' ''xsd:double''])
   \<and> ODRL_permission_constraint
        (generateODRLPolicy_object ''2024-05-01T08:30:00.000Z'' example_dataset
           (initial_config\<lparr>type := usage_count, maxUsageCount := Some (- 3)\<rparr>))
      = Some (JArray [ODRL_Constraint ''count'' ''lteq'' (JNumber (- 3))])"
proof -
  have three: "Number_toString 10 3 = ''3''"
    by (simp add: Number_toString_exact nat_toString.simps digit_char_def)
  from usage_count_zero_and_negative
    [of "initial_config\<lparr>type := usage_count, maxUsageCount := Some 0\<rparr>" 0 example_dataset
        "''2024-05-01T08:30:00.000Z''"]
  have zero: "generateIDSPolicy_object example_dataset
        (initial_config\<lparr>type := usage_count, maxUsageCount := Some 0\<rparr>)
      = IDS_basePolicy example_dataset
   \<and> generateODRLPolicy_object ''2024-05-01T08:30:00.000Z'' example_dataset
        (initial_config\<lparr>type := usage_count, maxUsageCount := Some 0\<rparr>)
      = ODRL_basePolicy ''2024-05-01T08:30:00.000Z'' example_dataset"
    by (simp add: initial_config_def)
  from usage_count_zero_and_negative
    [of "initial_config\<lparr>type := usage_count, maxUsageCount := Some (- 3)\<rparr>" "- 3"
        example_dataset "''2024-05-01T08:30:00.000Z''"]
  have negative: "IDS_permission_constraint (generateIDSPolicy_object example_dataset
        (initial_config\<lparr>type := usage_count, maxUsageCount := Some (- 3)\<rparr>))
      = Some (JArray [IDS_Constraint ''idsc:COUNT'' ''idsc:LTEQ'' ''-3'' ''xsd:double''])
   \<and> ODRL_permission_constraint
        (generateODRLPolicy_object ''2024-05-01T08:30:00.000Z'' example_dataset
           (initial_config\<lparr>type := usage_count, maxUsageCount := Some (- 3)\<rparr>))
      = Some (JArray [ODRL_Constraint ''count'' ''lteq'' (JNumber (- 3))])"
    by (simp add: three initial_config_def IDS_Constraint_def ODRL_Constraint_def)
  from zero negative three show ?thesis
    by (simp add: initial_config_def)
qed

section \<open>Empty parameters\<close>

text \<open>
  C4. When the parameters of the active type are empty or absent (no consumer, no
  connector, an empty or absent time, no usage count), both generators return the base
  document as it is: the permission has no constraint, \<^verbatim>\<open>ids:consumer\<close> and
  \<^verbatim>\<open>assignee\<close> are the placeholders, and the printed documents are the printed base
  documents. The generators are total functions: the source has no statement that throws,
  and each read of a list element or of the number is behind its guard.
\<close>

theorem empty_parameters_base_document:
  assumes "parameters_empty config"
  shows "generateIDSPolicy_object d config = IDS_basePolicy d
       \<and> generateODRLPolicy_object now d config = ODRL_basePolicy now d
       \<and> generateIDSPolicy d config = JSON_stringify (IDS_basePolicy d)
       \<and> generateODRLPolicy now d config = JSON_stringify (ODRL_basePolicy now d)
       \<and> IDS_permission_constraint (generateIDSPolicy_object d config) = None
       \<and> ODRL_permission_constraint (generateODRLPolicy_object now d config) = None
       \<and> property ''ids:consumer'' (generateIDSPolicy_object d config)
           = Some (JString ''http://example.com/party/data-consumer'')
       \<and> Option.bind (ODRL_permission (generateODRLPolicy_object now d config))
           (property ''assignee'') = Some (JString ''http://example.com/ids/party/data-consumer'')"
proof -
  have ids: "generateIDSPolicy_object d config = IDS_basePolicy d"
    using assms by (rule IDS_empty_object)
  have odrl: "generateODRLPolicy_object now d config = ODRL_basePolicy now d"
    using assms by (rule ODRL_empty_object)
  have consumer: "property ''ids:consumer'' (IDS_basePolicy d)
      = Some (JString ''http://example.com/party/data-consumer'')"
    by (simp add: IDS_basePolicy_def)
  have assignee: "Option.bind (ODRL_permission (ODRL_basePolicy now d)) (property ''assignee'')
      = Some (JString ''http://example.com/ids/party/data-consumer'')"
    by (simp add: ODRL_basePolicy_def ODRL_permission_def)
  show ?thesis
    unfolding generateIDSPolicy_def generateODRLPolicy_def ids odrl
    using consumer assignee IDS_base_no_constraint [of d] ODRL_base_no_constraint [of now d]
    by simp
qed

theorem empty_parameters_base_document_witness:
  "parameters_empty initial_config
   \<and> generateIDSPolicy_object example_dataset initial_config = IDS_basePolicy example_dataset
   \<and> parameters_empty (initial_config\<lparr>type := restrict_connector, connectors := None\<rparr>)
   \<and> generateIDSPolicy_object example_dataset
        (initial_config\<lparr>type := restrict_connector, connectors := None\<rparr>)
      = IDS_basePolicy example_dataset
   \<and> parameters_empty
        (initial_config\<lparr>type := time_limit, startTime := Some ''2024-01-01T00:00''\<rparr>)
   \<and> generateODRLPolicy_object ''2024-05-01T08:30:00.000Z'' example_dataset
        (initial_config\<lparr>type := time_limit, startTime := Some ''2024-01-01T00:00''\<rparr>)
      = ODRL_basePolicy ''2024-05-01T08:30:00.000Z'' example_dataset
   \<and> parameters_empty (initial_config\<lparr>type := usage_count, maxUsageCount := None\<rparr>)
   \<and> generateODRLPolicy_object ''2024-05-01T08:30:00.000Z'' example_dataset
        (initial_config\<lparr>type := usage_count, maxUsageCount := None\<rparr>)
      = ODRL_basePolicy ''2024-05-01T08:30:00.000Z'' example_dataset"
  using
    empty_parameters_base_document [of initial_config example_dataset]
    empty_parameters_base_document
      [of "initial_config\<lparr>type := restrict_connector, connectors := None\<rparr>" example_dataset]
    empty_parameters_base_document
      [of "initial_config\<lparr>type := time_limit, startTime := Some ''2024-01-01T00:00''\<rparr>"
          example_dataset "''2024-05-01T08:30:00.000Z''"]
    empty_parameters_base_document
      [of "initial_config\<lparr>type := usage_count, maxUsageCount := None\<rparr>"
          example_dataset "''2024-05-01T08:30:00.000Z''"]
  by (simp add: parameters_empty_def initial_config_def)

section \<open>Determinism\<close>

text \<open>
  C5. Two runs on the same dataset and configuration, at the clock readings \<open>t1\<close> and
  \<open>t2\<close> and from any two states, produce the same printed IDS document. The ODRL
  document of the second run is the one of the first with \<^verbatim>\<open>dc:issued\<close> set to \<open>t2\<close>,
  and so is the printed document; \<^verbatim>\<open>dc:issued\<close> is the clock reading, so that the two
  ODRL documents are equal exactly when the two readings are.
\<close>

theorem recompilation_differs_in_issued_only:
  "idsPolicy (useEffect_policies t1 (Some d) config s1)
     = idsPolicy (useEffect_policies t2 (Some d) config s2)
   \<and> idsPolicy (useEffect_policies t1 (Some d) config s1) = generateIDSPolicy d config
   \<and> generateODRLPolicy_object t2 d config
       = set_field ''dc:issued'' (JString t2) (generateODRLPolicy_object t1 d config)
   \<and> odrlPolicy (useEffect_policies t2 (Some d) config s2)
       = JSON_stringify (set_field ''dc:issued'' (JString t2) (generateODRLPolicy_object t1 d config))
   \<and> property ''dc:issued'' (generateODRLPolicy_object t1 d config) = Some (JString t1)
   \<and> (generateODRLPolicy_object t1 d config = generateODRLPolicy_object t2 d config) = (t1 = t2)"
proof -
  have issued: "generateODRLPolicy_object t2 d config
       = set_field ''dc:issued'' (JString t2) (generateODRLPolicy_object t1 d config)"
    by (rule ODRL_issued)
  have reading: "property ''dc:issued'' (generateODRLPolicy_object t d config) = Some (JString t)"
    for t
    using ODRL_frame(7) [OF ODRL_object_cases [of t d config]]
    by (simp add: keeps_def ODRL_basePolicy_def)
  have "t1 = t2" if "generateODRLPolicy_object t1 d config = generateODRLPolicy_object t2 d config"
  proof -
    from that have "property ''dc:issued'' (generateODRLPolicy_object t1 d config)
        = property ''dc:issued'' (generateODRLPolicy_object t2 d config)"
      by (rule arg_cong)
    then have "Some (JString t1) = Some (JString t2)"
      by (simp only: reading)
    then show ?thesis
      by simp
  qed
  then have iff: "(generateODRLPolicy_object t1 d config = generateODRLPolicy_object t2 d config)
      = (t1 = t2)"
    by auto
  have printed: "odrlPolicy (useEffect_policies t2 (Some d) config s2)
       = JSON_stringify (set_field ''dc:issued'' (JString t2) (generateODRLPolicy_object t1 d config))"
    by (simp add: useEffect_policies_def generateODRLPolicy_def issued [symmetric])
  have ids: "idsPolicy (useEffect_policies t1 (Some d) config s1)
     = idsPolicy (useEffect_policies t2 (Some d) config s2)"
    "idsPolicy (useEffect_policies t1 (Some d) config s1) = generateIDSPolicy d config"
    by (simp_all add: useEffect_policies_def)
  show ?thesis
    by (intro conjI ids issued printed reading iff)
qed

text \<open>
  C6. Each generator reads the type and the parameters of that type only: on two
  configurations of the same type that agree on the parameters of that type, and differ
  in any way elsewhere, the printed IDS documents are equal, the printed ODRL documents of
  one clock reading are equal, and the ODRL documents of two clock readings differ in
  \<^verbatim>\<open>dc:issued\<close> only.
\<close>

theorem unrelated_fields_ignored:
  assumes "same_relevant_parameters c1 c2"
  shows "generateIDSPolicy d c1 = generateIDSPolicy d c2
       \<and> generateODRLPolicy now d c1 = generateODRLPolicy now d c2
       \<and> generateODRLPolicy_object t2 d c2
           = set_field ''dc:issued'' (JString t2) (generateODRLPolicy_object t1 d c1)"
proof -
  have ids: "generateIDSPolicy d c1 = generateIDSPolicy d c2"
    by (simp only: generateIDSPolicy_def IDS_same_relevant [OF assms])
  have odrl: "generateODRLPolicy now d c1 = generateODRLPolicy now d c2"
    by (simp only: generateODRLPolicy_def ODRL_same_relevant [OF assms])
  have "generateODRLPolicy_object t2 d c2
      = set_field ''dc:issued'' (JString t2) (generateODRLPolicy_object t1 d c2)"
    by (rule ODRL_issued)
  then have issued: "generateODRLPolicy_object t2 d c2
      = set_field ''dc:issued'' (JString t2) (generateODRLPolicy_object t1 d c1)"
    by (simp only: ODRL_same_relevant [OF assms])
  show ?thesis
    by (intro conjI ids odrl issued)
qed

theorem unrelated_fields_ignored_witness:
  "same_relevant_parameters
     (initial_config\<lparr>type := usage_count, maxUsageCount := Some 5\<rparr>)
     \<lparr>type = usage_count, consumers = Some [''c1'', ''c2''], connectors = None,
      startTime = Some ''2024-01-01T00:00'', endTime = None, maxUsageCount = Some 5\<rparr>
   \<and> consumers (initial_config\<lparr>type := usage_count, maxUsageCount := Some 5\<rparr>)
       \<noteq> Some [''c1'', ''c2'']
   \<and> generateIDSPolicy example_dataset
        (initial_config\<lparr>type := usage_count, maxUsageCount := Some 5\<rparr>)
      = generateIDSPolicy example_dataset
          \<lparr>type = usage_count, consumers = Some [''c1'', ''c2''], connectors = None,
           startTime = Some ''2024-01-01T00:00'', endTime = None, maxUsageCount = Some 5\<rparr>
   \<and> generateODRLPolicy ''2024-05-01T08:30:00.000Z'' example_dataset
        (initial_config\<lparr>type := usage_count, maxUsageCount := Some 5\<rparr>)
      = generateODRLPolicy ''2024-05-01T08:30:00.000Z'' example_dataset
          \<lparr>type = usage_count, consumers = Some [''c1'', ''c2''], connectors = None,
           startTime = Some ''2024-01-01T00:00'', endTime = None, maxUsageCount = Some 5\<rparr>"
proof -
  have same: "same_relevant_parameters
     (initial_config\<lparr>type := usage_count, maxUsageCount := Some 5\<rparr>)
     \<lparr>type = usage_count, consumers = Some [''c1'', ''c2''], connectors = None,
      startTime = Some ''2024-01-01T00:00'', endTime = None, maxUsageCount = Some 5\<rparr>"
    by (simp add: same_relevant_parameters_def initial_config_def)
  have differ: "consumers (initial_config\<lparr>type := usage_count, maxUsageCount := Some 5\<rparr>)
       \<noteq> Some [''c1'', ''c2'']"
    by (simp add: initial_config_def)
  from unrelated_fields_ignored [OF same] same differ show ?thesis
    by simp
qed

section \<open>Identifiers\<close>

text \<open>
  C7. When every result of \<^verbatim>\<open>Math.random()\<close> is in the interval from 0 to 1, 1
  excluded, \<^verbatim>\<open>generateUUID\<close> returns a string of 36 characters that follows the
  template character by character: hexadecimal digits in groups of 8, 4, 4, 4 and 12
  with hyphens between the groups, \<^verbatim>\<open>4\<close> as the first character of the third group and
  one of \<^verbatim>\<open>8 9 a b\<close> as the first character of the fourth. The function is total, reads
  nothing but the random source, and takes 31 results from it.
\<close>

theorem generateUUID_layout:
  assumes "\<forall>x \<in> sset rnd. 0 \<le> x \<and> x < 1"
  shows "length (fst (generateUUID rnd)) = 36
       \<and> list_all2 uuid_slot ''xxxxxxxx-xxxx-4xxx-yxxx-xxxxxxxxxxxx'' (fst (generateUUID rnd))
       \<and> fst (generateUUID rnd) ! 8 = CHR ''-''
       \<and> fst (generateUUID rnd) ! 13 = CHR ''-''
       \<and> fst (generateUUID rnd) ! 14 = CHR ''4''
       \<and> fst (generateUUID rnd) ! 18 = CHR ''-''
       \<and> fst (generateUUID rnd) ! 19 \<in> set ''89ab''
       \<and> fst (generateUUID rnd) ! 23 = CHR ''-''
       \<and> snd (generateUUID rnd) = sdrop 31 rnd"
proof -
  let ?t = "''xxxxxxxx-xxxx-4xxx-yxxx-xxxxxxxxxxxx''"
  let ?s = "fst (generateUUID rnd)"
  have layout: "list_all2 uuid_slot ?t ?s"
    unfolding generateUUID_def using assms by (rule replace_xy_layout)
  have "length ?t = length ?s"
    using layout by (rule list_all2_lengthD)
  then have len: "length ?s = 36"
    by simp
  have slot: "uuid_slot (?t ! i) (?s ! i)" if "i < length ?t" for i
    using layout that by (rule list_all2_nthD)
  have h8: "?s ! 8 = CHR ''-''"
    using slot [of 8] by (simp add: uuid_slot_def)
  have h13: "?s ! 13 = CHR ''-''"
    using slot [of 13] by (simp add: uuid_slot_def)
  have h14: "?s ! 14 = CHR ''4''"
    using slot [of 14] by (simp add: uuid_slot_def)
  have h18: "?s ! 18 = CHR ''-''"
    using slot [of 18] by (simp add: uuid_slot_def)
  have h19: "?s ! 19 \<in> set ''89ab''"
    using slot [of 19] by (simp add: uuid_slot_def)
  have h23: "?s ! 23 = CHR ''-''"
    using slot [of 23] by (simp add: uuid_slot_def)
  have "length (filter (\<lambda>c. c = CHR ''x'' \<or> c = CHR ''y'') ?t) = 31"
    by simp
  then have rest: "snd (generateUUID rnd) = sdrop 31 rnd"
    by (simp only: generateUUID_def replace_xy_rest)
  show ?thesis
    by (intro conjI len layout h8 h13 h14 h18 h19 h23 rest)
qed

theorem generateUUID_layout_witness:
  "sset (sconst (1 / 2 :: real)) = {1 / 2}
   \<and> (0 :: real) \<le> 1 / 2 \<and> (1 / 2 :: real) < 1
   \<and> fst (generateUUID (sconst (1 / 2))) = ''88888888-8888-4888-8888-888888888888''
   \<and> length (fst (generateUUID (sconst (1 / 2)))) = 36
   \<and> list_all2 uuid_slot ''xxxxxxxx-xxxx-4xxx-yxxx-xxxxxxxxxxxx''
       (fst (generateUUID (sconst (1 / 2))))
   \<and> snd (generateUUID (sconst (1 / 2))) = sdrop 31 (sconst (1 / 2))"
proof -
  have v: "fst (generateUUID (sconst (1 / 2))) = ''88888888-8888-4888-8888-888888888888''"
    by (simp add: generateUUID_def replacer_def ToInt32_def Number_toString_def Number_digits_def
        nat_toString.simps digit_char_def)
  have h: "\<forall>x \<in> sset (sconst (1 / 2 :: real)). 0 \<le> x \<and> x < 1"
    by simp
  have s: "sset (sconst (1 / 2 :: real)) = {1 / 2}"
    by simp
  from generateUUID_layout [OF h] have
    "length (fst (generateUUID (sconst (1 / 2)))) = 36"
    "list_all2 uuid_slot ''xxxxxxxx-xxxx-4xxx-yxxx-xxxxxxxxxxxx''
       (fst (generateUUID (sconst (1 / 2))))"
    "snd (generateUUID (sconst (1 / 2))) = sdrop 31 (sconst (1 / 2))"
    by simp_all
  with v s show ?thesis
    by simp
qed

text \<open>
  C8. For every dataset, configuration and clock reading: \<^verbatim>\<open>@id\<close> of the IDS document
  is \<^verbatim>\<open>https://w3id.org/idsa/autogen/contract/\<close> followed by the \<^verbatim>\<open>uuid\<close> of the
  dataset, \<^verbatim>\<open>uid\<close> of the ODRL document is \<^verbatim>\<open>http://example.com/policy/\<close> followed
  by it, and the targets of the two permissions end with it as well.
\<close>

theorem documents_embed_uuid:
  "property ''@id'' (generateIDSPolicy_object d config)
     = Some (JString (''https://w3id.org/idsa/autogen/contract/'' @ uuid d))
   \<and> property ''uid'' (generateODRLPolicy_object now d config)
     = Some (JString (''http://example.com/policy/'' @ uuid d))
   \<and> Option.bind (IDS_permission (generateIDSPolicy_object d config)) (property ''ids:target'')
     = Some (JObject [(''@id'', JString (''http://example.com/ids/target/'' @ uuid d))])
   \<and> Option.bind (ODRL_permission (generateODRLPolicy_object now d config)) (property ''target'')
     = Some (JString (''http://example.com/ids/data/'' @ uuid d))"
proof -
  note ids = IDS_object_cases [of d config]
  note odrl = ODRL_object_cases [of now d config]
  have a: "property ''@id'' (generateIDSPolicy_object d config)
     = Some (JString (''https://w3id.org/idsa/autogen/contract/'' @ uuid d))"
    using IDS_frame(3) [OF ids] by (simp add: keeps_def IDS_basePolicy_def)
  have b: "property ''uid'' (generateODRLPolicy_object now d config)
     = Some (JString (''http://example.com/policy/'' @ uuid d))"
    using ODRL_frame(3) [OF odrl] by (simp add: keeps_def ODRL_basePolicy_def)
  have c: "Option.bind (IDS_permission (generateIDSPolicy_object d config))
      (property ''ids:target'')
     = Some (JObject [(''@id'', JString (''http://example.com/ids/target/'' @ uuid d))])"
    using IDS_frame(7) [OF ids] by (auto simp add: keeps_def IDS_basePolicy_def IDS_permission_def)
  have e: "Option.bind (ODRL_permission (generateODRLPolicy_object now d config))
      (property ''target'')
     = Some (JString (''http://example.com/ids/data/'' @ uuid d))"
    using ODRL_frame(9) [OF odrl]
    by (auto simp add: keeps_def ODRL_basePolicy_def ODRL_permission_def)
  show ?thesis
    by (intro conjI a b c e)
qed

section \<open>The frame\<close>

text \<open>
  C10. For every dataset, configuration and clock reading, the generated documents have
  the property names of their base documents, in the same order. The IDS document keeps
  \<^verbatim>\<open>@context\<close>, \<^verbatim>\<open>@type\<close>, \<^verbatim>\<open>@id\<close>, \<^verbatim>\<open>profile\<close> and \<^verbatim>\<open>ids:provider\<close>; its
  permission list has one element, which keeps \<^verbatim>\<open>ids:target\<close> and \<^verbatim>\<open>ids:action\<close> and
  has no other property but, possibly and last, \<^verbatim>\<open>ids:constraint\<close>. The ODRL document
  keeps \<^verbatim>\<open>@context\<close>, \<^verbatim>\<open>@type\<close>, \<^verbatim>\<open>uid\<close>, \<^verbatim>\<open>profile\<close>, \<^verbatim>\<open>dc:creator\<close> and
  \<^verbatim>\<open>dc:description\<close>; its permission list has one element, which keeps \<^verbatim>\<open>target\<close>,
  \<^verbatim>\<open>assigner\<close> and \<^verbatim>\<open>action\<close> and has no other property but \<^verbatim>\<open>assignee\<close> and,
  possibly and last, \<^verbatim>\<open>constraint\<close>.
\<close>

theorem base_skeleton_unchanged:
  "keeps ''@context'' (IDS_basePolicy d) (generateIDSPolicy_object d config)
   \<and> keeps ''@type'' (IDS_basePolicy d) (generateIDSPolicy_object d config)
   \<and> keeps ''@id'' (IDS_basePolicy d) (generateIDSPolicy_object d config)
   \<and> keeps ''profile'' (IDS_basePolicy d) (generateIDSPolicy_object d config)
   \<and> keeps ''ids:provider'' (IDS_basePolicy d) (generateIDSPolicy_object d config)
   \<and> names (generateIDSPolicy_object d config) = names (IDS_basePolicy d)
   \<and> (\<exists>p bp. property ''ids:permission'' (generateIDSPolicy_object d config) = Some (JArray [p])
         \<and> property ''ids:permission'' (IDS_basePolicy d) = Some (JArray [bp])
         \<and> keeps ''ids:target'' bp p \<and> keeps ''ids:action'' bp p
         \<and> (names p = names bp \<or> names p = names bp @ [''ids:constraint'']))
   \<and> keeps ''@context'' (ODRL_basePolicy now d) (generateODRLPolicy_object now d config)
   \<and> keeps ''@type'' (ODRL_basePolicy now d) (generateODRLPolicy_object now d config)
   \<and> keeps ''uid'' (ODRL_basePolicy now d) (generateODRLPolicy_object now d config)
   \<and> keeps ''profile'' (ODRL_basePolicy now d) (generateODRLPolicy_object now d config)
   \<and> keeps ''dc:creator'' (ODRL_basePolicy now d) (generateODRLPolicy_object now d config)
   \<and> keeps ''dc:description'' (ODRL_basePolicy now d) (generateODRLPolicy_object now d config)
   \<and> names (generateODRLPolicy_object now d config) = names (ODRL_basePolicy now d)
   \<and> (\<exists>p bp. property ''permission'' (generateODRLPolicy_object now d config) = Some (JArray [p])
         \<and> property ''permission'' (ODRL_basePolicy now d) = Some (JArray [bp])
         \<and> keeps ''target'' bp p \<and> keeps ''assigner'' bp p \<and> keeps ''action'' bp p
         \<and> (names p = names bp \<or> names p = names bp @ [''constraint'']))"
proof -
  note ids = IDS_frame [OF IDS_object_cases [of d config]]
  note odrl = ODRL_frame [OF ODRL_object_cases [of now d config]]
  show ?thesis
    by (intro conjI ids odrl(1-6) odrl(8-9))
qed

end
